theory Spec2Isabelle
  imports Complex_Main "HOL-Library.Word"
begin

section \<open>JavaScript values\<close>

text \<open>
  A JavaScript string is a sequence of UTF-16 code units. \<open>str\<close> turns an ASCII
  literal of the source into that representation.
\<close>

type_synonym jsstring = "16 word list"

definition str :: "string \<Rightarrow> jsstring" where
  "str s = map of_char s"

text \<open>
  Numbers are modelled by their exact value; \<open>NaN\<close> is kept apart because the source
  tests for it. The infinities and the sign of zero are not represented. Every
  operation whose result depends on the binary64 representation or on the host
  (division, number formatting, number parsing) is taken from the platform below.
\<close>

datatype jsnumber = NaN | Num rat

text \<open>
  Values as they arrive from \<open>response.json()\<close> or are read from an object; \<open>Undefined\<close>
  is what reading an absent property gives. An \<open>Object\<close> lists its own properties in
  the order \<open>Object.keys\<close> enumerates them.
\<close>

datatype jsvalue =
    Undefined
  | Null
  | Bool bool
  | Number jsnumber
  | String jsstring
  | Array "jsvalue list"
  | Object "(jsstring \<times> jsvalue) list"

datatype error_name = TypeError | SyntaxError | PlainError

datatype js_error = JsError (errorName: error_name) (errorMessage: jsstring)

text \<open>\<open>!v\<close> is \<open>\<not> truthy v\<close>.\<close>

fun truthy :: "jsvalue \<Rightarrow> bool" where
  "truthy Undefined = False"
| "truthy Null = False"
| "truthy (Bool b) = b"
| "truthy (Number NaN) = False"
| "truthy (Number (Num q)) = (q \<noteq> 0)"
| "truthy (String s) = (s \<noteq> [])"
| "truthy (Array xs) = True"
| "truthy (Object kvs) = True"

text \<open>\<open>Array.isArray(v)\<close>, and the elements of an array.\<close>

fun isArray :: "jsvalue \<Rightarrow> bool" where
  "isArray (Array xs) = True"
| "isArray v = False"

fun elements :: "jsvalue \<Rightarrow> jsvalue list" where
  "elements (Array xs) = xs"
| "elements v = []"

text \<open>\<open>a || b\<close>\<close>

definition js_or :: "jsvalue \<Rightarrow> jsvalue \<Rightarrow> jsvalue" where
  "js_or a b = (if truthy a then a else b)"

text \<open>Decimal digits of a natural number: array indices and integer values as strings.\<close>

fun digitsOf :: "nat \<Rightarrow> jsstring" where
  "digitsOf n =
     (if n < 10 then [of_nat (48 + n)] else digitsOf (n div 10) @ [of_nat (48 + n mod 10)])"

declare digitsOf.simps [simp del]

text \<open>\<open>Array.prototype.join\<close> on strings.\<close>

fun join :: "jsstring \<Rightarrow> jsstring list \<Rightarrow> jsstring" where
  "join sep [] = []"
| "join sep [s] = s"
| "join sep (s # t # ss) = s @ sep @ join sep (t # ss)"

text \<open>
  \<open>String.prototype.trim\<close> removes leading and trailing WhiteSpace and LineTerminator
  code points of ECMAScript.
\<close>

definition isWhiteSpace :: "16 word \<Rightarrow> bool" where
  "isWhiteSpace c =
     (c \<in> {0x9, 0xA, 0xB, 0xC, 0xD, 0x20, 0xA0, 0x1680, 0x2028, 0x2029, 0x202F, 0x205F,
            0x3000, 0xFEFF}
      \<or> (0x2000 \<le> c \<and> c \<le> 0x200A))"

definition trim :: "jsstring \<Rightarrow> jsstring" where
  "trim s = rev (dropWhile isWhiteSpace (rev (dropWhile isWhiteSpace s)))"

section \<open>The platform\<close>

text \<open>
  What the source takes from its host: the build-time environment variable, the
  network, and the built-in conversions whose result depends on the binary64
  representation, the locale or the time zone. The functions of the program take
  the platform as their first argument.
\<close>

datatype jsdate = InvalidDate | DateTime int

record request =
  httpMethod :: jsstring
  url :: jsstring
  body :: "jsvalue option"

text \<open>
  A response carries its status line and what \<open>response.json()\<close> settles to: the parsed
  value, or the error it rejects with.
\<close>

record response =
  status :: nat
  statusText :: jsstring
  json :: "js_error + jsvalue"

definition ok :: "response \<Rightarrow> bool" where
  "ok r = (200 \<le> status r \<and> status r \<le> 299)"

record platform =
  REACT_APP_API_URL :: "jsstring option"
  fetch :: "request \<Rightarrow> js_error + response"
  numberToString :: "jsnumber \<Rightarrow> jsstring"
  stringToNumber :: "jsstring \<Rightarrow> jsnumber"
  numDivide :: "jsnumber \<Rightarrow> jsnumber \<Rightarrow> jsnumber"
  toFixed :: "jsnumber \<Rightarrow> nat \<Rightarrow> jsstring"
  toLocaleString :: "jsnumber \<Rightarrow> jsstring"
  newDate :: "jsvalue \<Rightarrow> jsdate"
  toDateString :: "jsdate \<Rightarrow> jsstring"
  toLocaleDateString :: "jsdate \<Rightarrow> jsstring"

text \<open>\<open>const API_BASE_URL = process.env.REACT_APP_API_URL || 'http://localhost:5000/api'\<close>\<close>

definition API_BASE_URL :: "platform \<Rightarrow> jsstring" where
  "API_BASE_URL P =
     (case REACT_APP_API_URL P of
        None \<Rightarrow> str ''http://localhost:5000/api''
      | Some u \<Rightarrow> if u \<noteq> [] then u else str ''http://localhost:5000/api'')"

text \<open>
  The conversions of the language. \<open>ToString\<close> is what a template literal applies;
  an array or object from JSON converts through its default \<open>toString\<close>.
\<close>

fun ToString :: "platform \<Rightarrow> jsvalue \<Rightarrow> jsstring" where
  "ToString P Undefined = str ''undefined''"
| "ToString P Null = str ''null''"
| "ToString P (Bool b) = (if b then str ''true'' else str ''false'')"
| "ToString P (Number n) = numberToString P n"
| "ToString P (String s) = s"
| "ToString P (Array xs) =
     join (str '','') (map (\<lambda>x. if x = Undefined \<or> x = Null then [] else ToString P x) xs)"
| "ToString P (Object kvs) = str ''[object Object]''"

fun ToNumber :: "platform \<Rightarrow> jsvalue \<Rightarrow> jsnumber" where
  "ToNumber P Undefined = NaN"
| "ToNumber P Null = Num 0"
| "ToNumber P (Bool b) = (if b then Num 1 else Num 0)"
| "ToNumber P (Number n) = n"
| "ToNumber P (String s) = stringToNumber P s"
| "ToNumber P (Array xs) = stringToNumber P (ToString P (Array xs))"
| "ToNumber P (Object kvs) = stringToNumber P (ToString P (Object kvs))"

text \<open>\<open>v > 0\<close> and \<open>v === 0\<close> on an arbitrary value.\<close>

fun num_gt0 :: "jsnumber \<Rightarrow> bool" where
  "num_gt0 NaN = False"
| "num_gt0 (Num q) = (0 < q)"

definition gt0 :: "platform \<Rightarrow> jsvalue \<Rightarrow> bool" where
  "gt0 P v = num_gt0 (ToNumber P v)"

text \<open>
  Reading a named property. On \<open>null\<close> and \<open>undefined\<close> the read throws a \<open>TypeError\<close>;
  the text of its message is the engine's own, and the model writes a fixed one in its
  place. A primitive or an array has none of the names the program reads, except
  \<open>length\<close>.
\<close>

fun getProp :: "jsvalue \<Rightarrow> jsstring \<Rightarrow> js_error + jsvalue" where
  "getProp Undefined k = Inl (JsError TypeError (str ''Cannot read properties of undefined''))"
| "getProp Null k = Inl (JsError TypeError (str ''Cannot read properties of null''))"
| "getProp (Object kvs) k = Inr (case map_of kvs k of None \<Rightarrow> Undefined | Some v \<Rightarrow> v)"
| "getProp (Array xs) k =
     Inr (if k = str ''length'' then Number (Num (of_nat (length xs))) else Undefined)"
| "getProp (String s) k =
     Inr (if k = str ''length'' then Number (Num (of_nat (length s))) else Undefined)"
| "getProp v k = Inr Undefined"

section \<open>API client\<close>

subsection \<open>fetchDashboardData\<close>

text \<open>
  The filters object handed to \<open>fetchDashboardData\<close>; \<open>None\<close> is a field that is
  absent (\<open>undefined\<close>).
\<close>

record filters =
  regions :: "jsstring list option"
  categories :: "jsstring list option"
  customerTenure :: "jsstring list option"
  customerRecency :: "jsstring list option"
  totalTransactionsMin :: "jsnumber option"
  totalTransactionsMax :: "jsnumber option"
  discountMin :: "jsnumber option"
  discountMax :: "jsnumber option"
  timeFilter :: "jsstring option"

text \<open>\<open>URLSearchParams\<close>: an ordered list of name-value pairs; \<open>append\<close> adds at the end.\<close>

type_synonym searchParams = "(jsstring \<times> jsstring) list"

definition append_entry :: "searchParams \<Rightarrow> jsstring \<Rightarrow> jsstring \<Rightarrow> searchParams" where
  "append_entry ps k v = ps @ [(k, v)]"

text \<open>\<open>if (filters.f && filters.f.length > 0) params.append(name, filters.f.join(','))\<close>\<close>

definition appendList :: "searchParams \<Rightarrow> jsstring \<Rightarrow> jsstring list option \<Rightarrow> searchParams" where
  "appendList params k f =
     (case f of
        None \<Rightarrow> params
      | Some xs \<Rightarrow> if length xs > 0 then append_entry params k (join (str '','') xs) else params)"

text \<open>\<open>if (filters.f !== undefined && filters.f > 0) params.append(name, filters.f)\<close>\<close>

definition appendNumber ::
  "platform \<Rightarrow> searchParams \<Rightarrow> jsstring \<Rightarrow> jsnumber option \<Rightarrow> searchParams" where
  "appendNumber P params k f =
     (case f of
        None \<Rightarrow> params
      | Some n \<Rightarrow> if num_gt0 n then append_entry params k (numberToString P n) else params)"

text \<open>\<open>if (filters.timeFilter && filters.timeFilter !== 'all') params.append(...)\<close>\<close>

definition appendTimeFilter :: "searchParams \<Rightarrow> jsstring option \<Rightarrow> searchParams" where
  "appendTimeFilter params f =
     (case f of
        None \<Rightarrow> params
      | Some s \<Rightarrow>
          if s \<noteq> [] \<and> s \<noteq> str ''all'' then append_entry params (str ''timeFilter'') s
          else params)"

definition dashboardParams :: "platform \<Rightarrow> filters \<Rightarrow> searchParams" where
  "dashboardParams P f =
     (let params = [];
          params = appendList params (str ''regions'') (regions f);
          params = appendList params (str ''categories'') (categories f);
          params = appendList params (str ''customerTenure'') (customerTenure f);
          params = appendList params (str ''customerRecency'') (customerRecency f);
          params = appendNumber P params (str ''totalTransactionsMin'') (totalTransactionsMin f);
          params = appendNumber P params (str ''totalTransactionsMax'') (totalTransactionsMax f);
          params = appendNumber P params (str ''discountMin'') (discountMin f);
          params = appendNumber P params (str ''discountMax'') (discountMax f);
          params = appendTimeFilter params (timeFilter f)
      in params)"

text \<open>\<open>URLSearchParams.get\<close>: the first value under a name, \<open>None\<close> for \<open>null\<close>.\<close>

definition getParam :: "searchParams \<Rightarrow> jsstring \<Rightarrow> jsstring option" where
  "getParam ps k = map_of ps k"

text \<open>
  \<open>URLSearchParams.toString\<close>: the application/x-www-form-urlencoded serialisation of
  the URL standard. A string is converted to scalar values (a lone surrogate becomes
  U+FFFD), encoded in UTF-8, and every byte outside \<open>*-._0-9A-Za-z\<close> is percent-encoded,
  a space as \<open>+\<close>.
\<close>

definition isHighSurrogate :: "16 word \<Rightarrow> bool" where
  "isHighSurrogate c = (0xD800 \<le> c \<and> c \<le> 0xDBFF)"

definition isLowSurrogate :: "16 word \<Rightarrow> bool" where
  "isLowSurrogate c = (0xDC00 \<le> c \<and> c \<le> 0xDFFF)"

fun scalarValues :: "jsstring \<Rightarrow> nat list" where
  "scalarValues [] = []"
| "scalarValues [c] = [if isHighSurrogate c \<or> isLowSurrogate c then 0xFFFD else unat c]"
| "scalarValues (c # d # cs) =
     (if isHighSurrogate c \<and> isLowSurrogate d
      then (0x10000 + (unat c - 0xD800) * 0x400 + (unat d - 0xDC00)) # scalarValues cs
      else (if isHighSurrogate c \<or> isLowSurrogate c then 0xFFFD else unat c)
           # scalarValues (d # cs))"

definition utf8 :: "nat \<Rightarrow> nat list" where
  "utf8 cp =
     (if cp < 0x80 then [cp]
      else if cp < 0x800 then [0xC0 + cp div 0x40, 0x80 + cp mod 0x40]
      else if cp < 0x10000
        then [0xE0 + cp div 0x1000, 0x80 + cp div 0x40 mod 0x40, 0x80 + cp mod 0x40]
      else [0xF0 + cp div 0x40000, 0x80 + cp div 0x1000 mod 0x40,
            0x80 + cp div 0x40 mod 0x40, 0x80 + cp mod 0x40])"

definition hexDigit :: "nat \<Rightarrow> 16 word" where
  "hexDigit d = (if d < 10 then of_nat (48 + d) else of_nat (55 + d))"

definition isUrlencodedSafe :: "nat \<Rightarrow> bool" where
  "isUrlencodedSafe b =
     (b = 0x2A \<or> b = 0x2D \<or> b = 0x2E \<or> b = 0x5F
      \<or> (0x30 \<le> b \<and> b \<le> 0x39) \<or> (0x41 \<le> b \<and> b \<le> 0x5A) \<or> (0x61 \<le> b \<and> b \<le> 0x7A))"

definition percentEncodeByte :: "nat \<Rightarrow> jsstring" where
  "percentEncodeByte b =
     (if b = 0x20 then [0x2B]
      else if isUrlencodedSafe b then [of_nat b]
      else [0x25, hexDigit (b div 16), hexDigit (b mod 16)])"

definition urlencode :: "jsstring \<Rightarrow> jsstring" where
  "urlencode s = concat (map percentEncodeByte (concat (map utf8 (scalarValues s))))"

definition paramsToString :: "searchParams \<Rightarrow> jsstring" where
  "paramsToString ps = join (str ''&'') (map (\<lambda>(k, v). urlencode k @ str ''='' @ urlencode v) ps)"

text \<open>
  \<open>`${API_BASE_URL}/data${params.toString() ? '?' + params.toString() : ''}`\<close>
\<close>

definition dashboardUrl :: "platform \<Rightarrow> filters \<Rightarrow> jsstring" where
  "dashboardUrl P f =
     API_BASE_URL P @ str ''/data''
       @ (if paramsToString (dashboardParams P f) \<noteq> []
          then str ''?'' @ paramsToString (dashboardParams P f) else [])"

definition GET :: "jsstring \<Rightarrow> request" where
  "GET u = \<lparr>httpMethod = str ''GET'', url = u, body = None\<rparr>"

definition POST :: "jsstring \<Rightarrow> jsvalue \<Rightarrow> request" where
  "POST u b = \<lparr>httpMethod = str ''POST'', url = u, body = Some b\<rparr>"

text \<open>
  The body of the \<open>try\<close> block: \<open>Inl\<close> is a thrown error or a rejected \<open>await\<close>.
\<close>

definition fetchDashboardData_try :: "platform \<Rightarrow> filters \<Rightarrow> js_error + jsvalue" where
  "fetchDashboardData_try P f =
     (case fetch P (GET (dashboardUrl P f)) of
        Inl e \<Rightarrow> Inl e
      | Inr response \<Rightarrow>
          if \<not> ok response
          then Inl (JsError PlainError
                 (str ''API error: '' @ digitsOf (status response) @ str '' ''
                    @ statusText response))
          else (case json response of
                  Inl e \<Rightarrow> Inl e
                | Inr rawData \<Rightarrow>
                    if \<not> isArray rawData \<or> length (elements rawData) = 0 then Inr Null
                    else Inr (elements rawData ! 0)))"

text \<open>
  The whole function: what the returned promise settles to, \<open>Inl\<close> for a rejection
  and \<open>Inr\<close> for the value it resolves to. The \<open>catch\<close> block logs and returns \<open>null\<close>.
\<close>

definition fetchDashboardData :: "platform \<Rightarrow> filters \<Rightarrow> js_error + jsvalue" where
  "fetchDashboardData P f =
     (case fetchDashboardData_try P f of
        Inl error \<Rightarrow> Inr Null
      | Inr v \<Rightarrow> Inr v)"

subsection \<open>analyzeText and fetchChatHistory\<close>

text \<open>
  A property of a value that an earlier read has shown to be neither \<open>null\<close> nor
  \<open>undefined\<close>.
\<close>

definition readProp :: "jsvalue \<Rightarrow> jsstring \<Rightarrow> jsvalue" where
  "readProp v k = (case getProp v k of Inl e \<Rightarrow> Undefined | Inr x \<Rightarrow> x)"

text \<open>
  The two shapes \<open>analyzeText\<close> returns: \<open>{success: true, summary, timestamp}\<close> and
  \<open>{success: false, error}\<close>.
\<close>

datatype analysis = AnalysisOk jsvalue jsvalue | AnalysisFailed jsvalue

definition analyzeRequest :: "platform \<Rightarrow> jsstring \<Rightarrow> request" where
  "analyzeRequest P userMessage =
     POST (API_BASE_URL P @ str ''/text/analyze'')
       (Object [(str ''user_message'', String userMessage)])"

definition analyzeText_try :: "platform \<Rightarrow> jsstring \<Rightarrow> js_error + analysis" where
  "analyzeText_try P userMessage =
     (case fetch P (analyzeRequest P userMessage) of
        Inl e \<Rightarrow> Inl e
      | Inr response \<Rightarrow>
          if \<not> ok response
          then Inl (JsError PlainError (str ''API error: '' @ digitsOf (status response)))
          else (case json response of
                  Inl e \<Rightarrow> Inl e
                | Inr data \<Rightarrow>
                    (case getProp data (str ''success'') of
                       Inl e \<Rightarrow> Inl e
                     | Inr success \<Rightarrow>
                         if truthy success
                         then Inr (AnalysisOk (readProp data (str ''summary''))
                                     (readProp data (str ''timestamp'')))
                         else Inr (AnalysisFailed
                                     (js_or (readProp data (str ''error''))
                                        (String (str ''Unknown error occurred'')))))))"

definition analyzeText :: "platform \<Rightarrow> jsstring \<Rightarrow> analysis" where
  "analyzeText P userMessage =
     (case analyzeText_try P userMessage of
        Inl error \<Rightarrow>
          AnalysisFailed (js_or (String (errorMessage error))
                            (String (str ''Failed to connect to API'')))
      | Inr r \<Rightarrow> r)"

definition chatHistoryRequest :: "platform \<Rightarrow> request" where
  "chatHistoryRequest P = GET (API_BASE_URL P @ str ''/chat/history?limit=20'')"

definition fetchChatHistory_try :: "platform \<Rightarrow> js_error + jsvalue" where
  "fetchChatHistory_try P =
     (case fetch P (chatHistoryRequest P) of
        Inl e \<Rightarrow> Inl e
      | Inr response \<Rightarrow>
          if \<not> ok response then Inr (Array [])
          else (case json response of
                  Inl e \<Rightarrow> Inl e
                | Inr data \<Rightarrow>
                    (case getProp data (str ''success'') of
                       Inl e \<Rightarrow> Inl e
                     | Inr success \<Rightarrow>
                         if truthy success
                         then Inr (js_or (readProp data (str ''history'')) (Array []))
                         else Inr (Array []))))"

text \<open>What the promise of \<open>fetchChatHistory\<close> settles to; \<open>Inl\<close> would be a rejection.\<close>

definition fetchChatHistory :: "platform \<Rightarrow> js_error + jsvalue" where
  "fetchChatHistory P =
     (case fetchChatHistory_try P of
        Inl e \<Rightarrow> Inr (Array [])
      | Inr v \<Rightarrow> Inr v)"

section \<open>Conversation state\<close>

datatype role = User | Assistant

text \<open>
  A message object. The analysis thread's messages have no \<open>charts\<close> property, nor
  have the user messages of the chart thread: \<open>charts\<close> is \<open>Undefined\<close> there.
\<close>

record message =
  role :: role
  content :: jsvalue
  timestamp :: jsvalue
  charts :: jsvalue

text \<open>The state variables of \<open>EcommerceDashboard\<close> that the two threads use.\<close>

record dashboard =
  currentPage :: jsstring
  chatMessages :: "message list"
  chatInput :: jsstring
  chatLoading :: bool
  chatHistoryLoaded :: bool
  graphChatMessages :: "message list"
  graphChatInput :: jsstring
  graphChatLoading :: bool
  graphChatHistoryLoaded :: bool

subsection \<open>Sending\<close>

text \<open>
  A handler is run to completion: the state it returns is the state after its last
  update, together with the requests it has issued, in order. \<open>now\<close> is what
  \<open>new Date().toISOString()\<close> returns when the user message is built, \<open>later\<close> what it
  returns once the reply has arrived.
\<close>

definition analysisReply :: "platform \<Rightarrow> jsstring \<Rightarrow> analysis \<Rightarrow> message" where
  "analysisReply P later result =
     (case result of
        AnalysisOk summary ts \<Rightarrow>
          \<lparr>role = Assistant, content = summary, timestamp = js_or ts (String later),
           charts = Undefined\<rparr>
      | AnalysisFailed error \<Rightarrow>
          \<lparr>role = Assistant,
           content = String (str ''Sorry, I ran into an issue: '' @ ToString P error),
           timestamp = String later, charts = Undefined\<rparr>)"

definition handleSendMessage ::
  "platform \<Rightarrow> jsstring \<Rightarrow> jsstring \<Rightarrow> dashboard \<Rightarrow> dashboard \<times> request list" where
  "handleSendMessage P now later st =
     (let text = trim (chatInput st) in
      if text = [] \<or> chatLoading st then (st, [])
      else
        let userMsg = \<lparr>role = User, content = String text, timestamp = String now,
                       charts = Undefined\<rparr>;
            st = st\<lparr>chatMessages := chatMessages st @ [userMsg]\<rparr>;
            st = st\<lparr>chatInput := []\<rparr>;
            st = st\<lparr>chatLoading := True\<rparr>;
            result = analyzeText P text;
            st = st\<lparr>chatMessages := chatMessages st @ [analysisReply P later result]\<rparr>;
            st = st\<lparr>chatLoading := False\<rparr>
        in (st, [analyzeRequest P text]))"

definition graphRequest :: "platform \<Rightarrow> jsstring \<Rightarrow> request" where
  "graphRequest P text =
     POST (API_BASE_URL P @ str ''/graphs/generate'')
       (Object [(str ''user_message'', String text)])"

text \<open>The \<open>try\<close> block of \<open>handleSendGraphMessage\<close>: the message it appends, or what it throws.\<close>

definition graphReply_try :: "platform \<Rightarrow> jsstring \<Rightarrow> jsstring \<Rightarrow> js_error + message" where
  "graphReply_try P text later =
     (case fetch P (graphRequest P text) of
        Inl e \<Rightarrow> Inl e
      | Inr response \<Rightarrow>
          (case json response of
             Inl e \<Rightarrow> Inl e
           | Inr data \<Rightarrow>
               (case getProp data (str ''success'') of
                  Inl e \<Rightarrow> Inl e
                | Inr success \<Rightarrow>
                    if truthy success
                    then Inr \<lparr>role = Assistant,
                              content = String (str ''Here are your charts for: \"'' @ text
                                                  @ str ''\"''),
                              timestamp = js_or (readProp data (str ''timestamp'')) (String later),
                              charts = js_or (readProp data (str ''charts'')) (Array [])\<rparr>
                    else Inr \<lparr>role = Assistant,
                              content = String (str ''Sorry, I ran into an issue: ''
                                @ ToString P (js_or (readProp data (str ''error''))
                                                (String (str ''Unknown error'')))),
                              timestamp = String later,
                              charts = Array []\<rparr>)))"

definition graphReply :: "platform \<Rightarrow> jsstring \<Rightarrow> jsstring \<Rightarrow> message" where
  "graphReply P text later =
     (case graphReply_try P text later of
        Inl err \<Rightarrow>
          \<lparr>role = Assistant,
           content = String (str ''Connection error: '' @ errorMessage err),
           timestamp = String later,
           charts = Array []\<rparr>
      | Inr m \<Rightarrow> m)"

definition handleSendGraphMessage ::
  "platform \<Rightarrow> jsstring \<Rightarrow> jsstring \<Rightarrow> dashboard \<Rightarrow> dashboard \<times> request list" where
  "handleSendGraphMessage P now later st =
     (let text = trim (graphChatInput st) in
      if text = [] \<or> graphChatLoading st then (st, [])
      else
        let userMsg = \<lparr>role = User, content = String text, timestamp = String now,
                       charts = Undefined\<rparr>;
            st = st\<lparr>graphChatMessages := graphChatMessages st @ [userMsg]\<rparr>;
            st = st\<lparr>graphChatInput := []\<rparr>;
            st = st\<lparr>graphChatLoading := True\<rparr>;
            st = st\<lparr>graphChatMessages := graphChatMessages st @ [graphReply P text later]\<rparr>;
            st = st\<lparr>graphChatLoading := False\<rparr>
        in (st, [graphRequest P text]))"

subsection \<open>History hydration\<close>

text \<open>
  The callback of \<open>history.forEach\<close> in the chat effect: a row becomes a user message
  and an assistant message. Reading a property of a \<open>null\<close> row throws.
\<close>

definition chatRow :: "jsvalue \<Rightarrow> js_error + message list" where
  "chatRow row =
     (case getProp row (str ''user_message'') of
        Inl e \<Rightarrow> Inl e
      | Inr user_message \<Rightarrow>
          Inr [\<lparr>role = User, content = user_message,
                timestamp = readProp row (str ''created_at''), charts = Undefined\<rparr>,
               \<lparr>role = Assistant, content = readProp row (str ''assistant_response''),
                timestamp = readProp row (str ''created_at''), charts = Undefined\<rparr>])"

fun chatRows :: "jsvalue list \<Rightarrow> message list \<Rightarrow> js_error + message list" where
  "chatRows [] loaded = Inr loaded"
| "chatRows (row # rows) loaded =
     (case chatRow row of
        Inl e \<Rightarrow> Inl e
      | Inr ms \<Rightarrow> chatRows rows (loaded @ ms))"

text \<open>
  The function passed to \<open>then\<close> in the chat effect. \<open>Inl\<close> is an error thrown inside it:
  no state update has happened by then, and nothing catches it.
\<close>

definition chatHistoryLoadedCallback ::
  "platform \<Rightarrow> jsvalue \<Rightarrow> dashboard \<Rightarrow> js_error + dashboard" where
  "chatHistoryLoadedCallback P history st =
     (case getProp history (str ''length'') of
        Inl e \<Rightarrow> Inl e
      | Inr len \<Rightarrow>
          if gt0 P len
          then (case history of
                  Array rows \<Rightarrow>
                    (case chatRows rows [] of
                       Inl e \<Rightarrow> Inl e
                     | Inr loaded \<Rightarrow>
                         Inr (st\<lparr>chatMessages := loaded, chatHistoryLoaded := True\<rparr>))
                | _ \<Rightarrow> Inl (JsError TypeError (str ''history.forEach is not a function'')))
          else Inr (st\<lparr>chatHistoryLoaded := True\<rparr>))"

text \<open>
  The chat-history effect: the state once the promise chain has settled, and the
  error of an unhandled rejection if there is one.
\<close>

definition chatHistoryEffect :: "platform \<Rightarrow> dashboard \<Rightarrow> dashboard \<times> js_error option" where
  "chatHistoryEffect P st =
     (if currentPage st = str ''text'' \<and> \<not> chatHistoryLoaded st
      then (case fetchChatHistory P of
              Inl e \<Rightarrow> (st, Some e)
            | Inr history \<Rightarrow>
                (case chatHistoryLoadedCallback P history st of
                   Inl e \<Rightarrow> (st, Some e)
                 | Inr st' \<Rightarrow> (st', None)))
      else (st, None))"

definition graphHistoryRequest :: "platform \<Rightarrow> request" where
  "graphHistoryRequest P = GET (API_BASE_URL P @ str ''/graphs/history?limit=20'')"

text \<open>
  The callback of \<open>data.history.map\<close> and the interleaving \<open>forEach\<close> of the graph effect,
  row by row.
\<close>

definition graphRow :: "jsvalue \<Rightarrow> js_error + message list" where
  "graphRow row =
     (case getProp row (str ''user_message'') of
        Inl e \<Rightarrow> Inl e
      | Inr user_message \<Rightarrow>
          Inr [\<lparr>role = User, content = user_message,
                timestamp = readProp row (str ''created_at''), charts = Undefined\<rparr>,
               \<lparr>role = Assistant,
                content = String ([0xD83D, 0xDCCA]
                  @ str '' Charts were generated for this question (re-ask to regenerate).''),
                timestamp = readProp row (str ''created_at''), charts = Array []\<rparr>])"

fun graphRows :: "jsvalue list \<Rightarrow> message list \<Rightarrow> js_error + message list" where
  "graphRows [] msgs = Inr msgs"
| "graphRows (row # rows) msgs =
     (case graphRow row of
        Inl e \<Rightarrow> Inl e
      | Inr ms \<Rightarrow> graphRows rows (msgs @ ms))"

text \<open>The second \<open>then\<close> of the graph effect.\<close>

definition graphHistoryCallback ::
  "platform \<Rightarrow> jsvalue \<Rightarrow> dashboard \<Rightarrow> js_error + dashboard" where
  "graphHistoryCallback P data st =
     (case getProp data (str ''success'') of
        Inl e \<Rightarrow> Inl e
      | Inr success \<Rightarrow>
          if truthy success \<and> truthy (readProp data (str ''history''))
             \<and> gt0 P (readProp (readProp data (str ''history'')) (str ''length''))
          then (case readProp data (str ''history'') of
                  Array rows \<Rightarrow>
                    (case graphRows rows [] of
                       Inl e \<Rightarrow> Inl e
                     | Inr msgs \<Rightarrow>
                         Inr (st\<lparr>graphChatMessages := msgs, graphChatHistoryLoaded := True\<rparr>))
                | _ \<Rightarrow> Inl (JsError TypeError (str ''data.history.map is not a function'')))
          else Inr (st\<lparr>graphChatHistoryLoaded := True\<rparr>))"

definition graphHistory_chain :: "platform \<Rightarrow> dashboard \<Rightarrow> js_error + dashboard" where
  "graphHistory_chain P st =
     (case fetch P (graphHistoryRequest P) of
        Inl e \<Rightarrow> Inl e
      | Inr r \<Rightarrow>
          (case json r of
             Inl e \<Rightarrow> Inl e
           | Inr data \<Rightarrow> graphHistoryCallback P data st))"

text \<open>The graph-history effect, with the final \<open>catch\<close>.\<close>

definition graphHistoryEffect :: "platform \<Rightarrow> dashboard \<Rightarrow> dashboard" where
  "graphHistoryEffect P st =
     (if currentPage st = str ''graphs'' \<and> \<not> graphChatHistoryLoaded st
      then (case graphHistory_chain P st of
              Inl e \<Rightarrow> st\<lparr>graphChatHistoryLoaded := True\<rparr>
            | Inr st' \<Rightarrow> st')
      else st)"

subsection \<open>Grouping by date\<close>

text \<open>\<open>today\<close> is what \<open>new Date()\<close> returns when the projection is computed.\<close>

definition formatDate :: "platform \<Rightarrow> jsdate \<Rightarrow> jsvalue \<Rightarrow> jsstring" where
  "formatDate P today isoString =
     (if \<not> truthy isoString then []
      else
        let d = newDate P isoString;
            isToday = (toDateString P d = toDateString P today)
        in if isToday then str ''Today'' else toLocaleDateString P d)"

datatype group_item = Divider jsstring jsstring | MessageItem message jsstring

text \<open>
  The \<open>forEach\<close> of \<open>chatGroupedMessages\<close>, with its index, \<open>lastDate\<close> (\<open>None\<close> for
  \<open>null\<close>) and the groups pushed so far.
\<close>

fun groupLoop ::
  "platform \<Rightarrow> jsdate \<Rightarrow> message list \<Rightarrow> nat \<Rightarrow> jsstring option \<Rightarrow> group_item list
     \<Rightarrow> group_item list" where
  "groupLoop P today [] idx lastDate groups = groups"
| "groupLoop P today (msg # msgs) idx lastDate groups =
     (let dateLabel = formatDate P today (timestamp msg) in
      if dateLabel \<noteq> [] \<and> Some dateLabel \<noteq> lastDate
      then groupLoop P today msgs (idx + 1) (Some dateLabel)
             (groups @ [Divider dateLabel (str ''divider-'' @ digitsOf idx),
                        MessageItem msg (str ''msg-'' @ digitsOf idx)])
      else groupLoop P today msgs (idx + 1) lastDate
             (groups @ [MessageItem msg (str ''msg-'' @ digitsOf idx)]))"

definition chatGroupedMessages :: "platform \<Rightarrow> jsdate \<Rightarrow> message list \<Rightarrow> group_item list" where
  "chatGroupedMessages P today msgs = groupLoop P today msgs 0 None []"

section \<open>Chart rendering\<close>

text \<open>
  \<open>Object.keys\<close>: the own enumerable property names. It throws on \<open>null\<close> and
  \<open>undefined\<close>; an array or a string has its indices, a number or a boolean has none.
\<close>

fun objectKeys :: "jsvalue \<Rightarrow> js_error + jsstring list" where
  "objectKeys Undefined =
     Inl (JsError TypeError (str ''Cannot convert undefined or null to object''))"
| "objectKeys Null =
     Inl (JsError TypeError (str ''Cannot convert undefined or null to object''))"
| "objectKeys (Object kvs) = Inr (map fst kvs)"
| "objectKeys (Array xs) = Inr (map digitsOf [0..<length xs])"
| "objectKeys (String s) = Inr (map digitsOf [0..<length s])"
| "objectKeys v = Inr []"

text \<open>\<open>allKeys[i]\<close>\<close>

definition keyAt :: "jsstring list \<Rightarrow> nat \<Rightarrow> jsvalue" where
  "keyAt allKeys i = (if i < length allKeys then String (allKeys ! i) else Undefined)"

text \<open>\<open>allKeys\<close>\<open>.includes(v)\<close>: only a string can be found in a list of strings.\<close>

fun includesKey :: "jsstring list \<Rightarrow> jsvalue \<Rightarrow> bool" where
  "includesKey allKeys (String k) = (k \<in> set allKeys)"
| "includesKey allKeys v = False"

text \<open>\<open>key && allKeys\<close>\<open>.includes(key) ? key : allKeys[i]\<close>\<close>

definition resolveKey :: "jsvalue \<Rightarrow> jsstring list \<Rightarrow> nat \<Rightarrow> jsvalue" where
  "resolveKey key allKeys i = (if truthy key \<and> includesKey allKeys key then key else keyAt allKeys i)"

datatype chart_kind = Pie | Line | Bar

text \<open>
  What the renderer hands to the chart library: the chart component chosen, the title,
  the rows, the two keys, and the three fields of \<open>xAxisProps\<close> that depend on the chart.
  A placeholder carries the title, and the error text or the list of keys, as the
  values that are handed to React.
\<close>

record chart_plan =
  kind :: chart_kind
  planTitle :: jsvalue
  planData :: "jsvalue list"
  xDataKey :: jsvalue
  yDataKey :: jsvalue
  angle :: int
  textAnchor :: jsstring
  height :: nat

datatype chart_view =
    ErrorPlaceholder jsvalue jsvalue
  | NoDataPlaceholder jsvalue
  | ColumnsPlaceholder jsvalue jsstring
  | Plan chart_plan

text \<open>
  Lines 1036 to 1039 of the renderer, for a chart whose \<open>data\<close> is a non-empty array:
  \<open>allKeys\<close>, \<open>xKey\<close> and \<open>yKey\<close>.
\<close>

definition deriveKeys :: "jsvalue \<Rightarrow> js_error + jsstring list \<times> jsvalue \<times> jsvalue" where
  "deriveKeys chart =
     (let firstRecord = elements (readProp chart (str ''data'')) ! 0 in
      case objectKeys firstRecord of
        Inl e \<Rightarrow> Inl e
      | Inr allKeys \<Rightarrow>
          let xKey = resolveKey (readProp chart (str ''xKey'')) allKeys 0;
              yKey = resolveKey (readProp chart (str ''yKey'')) allKeys 1
          in Inr (allKeys, xKey, yKey))"

text \<open>
  The body of \<open>msg.charts.map((chart, ci) => ...)\<close>: what one chart is rendered as,
  or the error thrown while rendering it.
\<close>

definition renderChart :: "jsvalue \<Rightarrow> js_error + chart_view" where
  "renderChart chart =
     (case getProp chart (str ''chart_type'') of
        Inl e \<Rightarrow> Inl e
      | Inr chart_type \<Rightarrow>
          if chart_type = String (str ''error'')
          then Inr (ErrorPlaceholder (readProp chart (str ''title''))
                      (readProp chart (str ''error'')))
          else
            let data = readProp chart (str ''data'') in
            if \<not> truthy data \<or> \<not> isArray data \<or> length (elements data) = 0
            then Inr (NoDataPlaceholder (readProp chart (str ''title'')))
            else
              (case deriveKeys chart of
                 Inl e \<Rightarrow> Inl e
               | Inr (allKeys, xKey, yKey) \<Rightarrow>
                   if \<not> truthy xKey \<or> \<not> truthy yKey
                   then Inr (ColumnsPlaceholder (readProp chart (str ''title''))
                               (join (str '', '') allKeys))
                   else
                     let chartType = js_or chart_type (String (str ''bar'')) in
                     Inr (Plan
                       \<lparr>kind =
                          (if chartType = String (str ''pie'') then Pie
                           else if chartType = String (str ''line'')
                                   \<or> chartType = String (str ''area'') then Line
                           else Bar),
                        planTitle = readProp chart (str ''title''),
                        planData = elements data,
                        xDataKey = xKey,
                        yDataKey = yKey,
                        angle = (if length (elements data) > 8 then - 35 else 0),
                        textAnchor =
                          (if length (elements data) > 8 then str ''end'' else str ''middle''),
                        height = (if length (elements data) > 8 then 60 else 30)\<rparr>)))"

subsection \<open>The tick formatter of the y axis\<close>

fun num_abs :: "jsnumber \<Rightarrow> jsnumber" where
  "num_abs NaN = NaN"
| "num_abs (Num q) = Num \<bar>q\<bar>"

text \<open>\<open>a >= b\<close> on numbers: false when either side is \<open>NaN\<close>.\<close>

fun num_ge :: "jsnumber \<Rightarrow> jsnumber \<Rightarrow> bool" where
  "num_ge (Num a) (Num b) = (b \<le> a)"
| "num_ge a b = False"

definition tickFormatter :: "platform \<Rightarrow> jsvalue \<Rightarrow> jsvalue" where
  "tickFormatter P v =
     (let n = ToNumber P v in
      if n = NaN then v
      else if num_ge (num_abs n) (Num 1000000)
        then String (toFixed P (numDivide P n (Num 1000000)) 1 @ str ''M'')
      else if num_ge (num_abs n) (Num 1000)
        then String (toFixed P (numDivide P n (Num 1000)) 1 @ str ''K'')
      else String (toLocaleString P n))"

section \<open>A reference platform\<close>

text \<open>
  One platform, written out, on which the program is evaluated at concrete inputs:
  no environment variable, a network that refuses every request, the \<open>en-US\<close> default
  locale and the UTC time zone. It is the host's behaviour on a part of its inputs
  only:
  \<^item> \<open>refNumberToString\<close>, \<open>refToFixed\<close> and \<open>refToLocaleString\<close> agree with ECMAScript
    on integers of magnitude below \<open>2\<^sup>5\<^sup>3\<close> and on binary64 values of magnitude from
    \<open>10\<^sup>-\<^sup>6\<close> up to \<open>10\<^sup>2\<^sup>1\<close> with at most fifteen significant digits, given by their
    exact value; outside that range \<open>Number::toString\<close> uses exponent notation, which
    \<open>refNumberToString\<close> does not;
  \<^item> \<open>refDivide\<close> is the exact quotient, which is the host's quotient only where
    the exact quotient is itself a binary64 value (\<open>-5000 / 1000\<close>, \<open>1500000 / 1000000\<close>);
    elsewhere the host rounds (its \<open>1150 / 1000\<close> lies below \<open>1.15\<close> and prints as \<open>1.1\<close>,
    the exact quotient as \<open>1.2\<close>);
  \<^item> \<open>refStringToNumber\<close> agrees on decimal integers;
  \<^item> \<open>refNewDate\<close> parses the 24-character format of \<open>toISOString\<close> only, and takes
    every other string, also one the host's parser accepts, for an invalid date.
\<close>

fun fractionDigits :: "nat \<Rightarrow> rat \<Rightarrow> jsstring" where
  "fractionDigits 0 r = []"
| "fractionDigits (Suc n) r =
     (if r = 0 then []
      else of_nat (48 + nat \<lfloor>r * 10\<rfloor>) # fractionDigits n (r * 10 - of_int \<lfloor>r * 10\<rfloor>))"

definition refNumberToString :: "jsnumber \<Rightarrow> jsstring" where
  "refNumberToString n =
     (case n of
        NaN \<Rightarrow> str ''NaN''
      | Num q \<Rightarrow>
          (if q < 0 then str ''-'' else [])
          @ digitsOf (nat \<lfloor>\<bar>q\<bar>\<rfloor>)
          @ (if \<bar>q\<bar> = of_int \<lfloor>\<bar>q\<bar>\<rfloor> then []
             else str ''.'' @ fractionDigits 20 (\<bar>q\<bar> - of_int \<lfloor>\<bar>q\<bar>\<rfloor>)))"

fun parseDigits :: "jsstring \<Rightarrow> nat \<Rightarrow> nat option" where
  "parseDigits [] acc = Some acc"
| "parseDigits (c # cs) acc =
     (if 48 \<le> c \<and> c \<le> 57 then parseDigits cs (acc * 10 + (unat c - 48)) else None)"

definition refStringToNumber :: "jsstring \<Rightarrow> jsnumber" where
  "refStringToNumber s =
     (case trim s of
        [] \<Rightarrow> Num 0
      | c # cs \<Rightarrow>
          if c = 45 \<and> cs \<noteq> []
          then (case parseDigits cs 0 of None \<Rightarrow> NaN | Some n \<Rightarrow> Num (- of_nat n))
          else (case parseDigits (c # cs) 0 of None \<Rightarrow> NaN | Some n \<Rightarrow> Num (of_nat n)))"

fun refDivide :: "jsnumber \<Rightarrow> jsnumber \<Rightarrow> jsnumber" where
  "refDivide (Num a) (Num b) = (if b = 0 then NaN else Num (a / b))"
| "refDivide a b = NaN"

definition refToFixed :: "jsnumber \<Rightarrow> nat \<Rightarrow> jsstring" where
  "refToFixed x f =
     (case x of
        NaN \<Rightarrow> str ''NaN''
      | Num q \<Rightarrow>
          let m = digitsOf (nat \<lfloor>\<bar>q\<bar> * 10 ^ f + 1 / 2\<rfloor>);
              m = replicate (f + 1 - length m) 48 @ m;
              k = length m
          in (if q < 0 then str ''-'' else [])
             @ (if f = 0 then m else take (k - f) m @ str ''.'' @ drop (k - f) m))"

fun groupDigits :: "jsstring \<Rightarrow> jsstring" where
  "groupDigits (a # b # c # d # ds) = a # b # c # 44 # groupDigits (d # ds)"
| "groupDigits ds = ds"

definition dropTrailingZeros :: "jsstring \<Rightarrow> jsstring" where
  "dropTrailingZeros ds = rev (dropWhile (\<lambda>c. c = 48) (rev ds))"

definition refToLocaleString :: "jsnumber \<Rightarrow> jsstring" where
  "refToLocaleString x =
     (case x of
        NaN \<Rightarrow> str ''NaN''
      | Num q \<Rightarrow>
          let n = nat \<lfloor>\<bar>q\<bar> * 1000 + 1 / 2\<rfloor>;
              whole = rev (groupDigits (rev (digitsOf (n div 1000))));
              frac = digitsOf (n mod 1000);
              frac = dropTrailingZeros (replicate (3 - length frac) 48 @ frac)
          in (if q < 0 then str ''-'' else [])
             @ whole @ (if frac = [] then [] else str ''.'' @ frac))"

definition daysFromCivil :: "int \<Rightarrow> int \<Rightarrow> int \<Rightarrow> int" where
  "daysFromCivil y m d =
     (let y = (if m \<le> 2 then y - 1 else y);
          era = y div 400;
          yoe = y - era * 400;
          doy = (153 * (if m > 2 then m - 3 else m + 9) + 2) div 5 + d - 1;
          doe = yoe * 365 + yoe div 4 - yoe div 100 + doy
      in era * 146097 + doe - 719468)"

definition civilFromDays :: "int \<Rightarrow> int \<times> int \<times> int" where
  "civilFromDays z =
     (let z = z + 719468;
          era = z div 146097;
          doe = z - era * 146097;
          yoe = (doe - doe div 1460 + doe div 36524 - doe div 146096) div 365;
          doy = doe - (365 * yoe + yoe div 4 - yoe div 100);
          mp = (5 * doy + 2) div 153;
          d = doy - (153 * mp + 2) div 5 + 1;
          m = (if mp < 10 then mp + 3 else mp - 9);
          y = yoe + era * 400
      in (if m \<le> 2 then y + 1 else y, m, d))"

definition daysInMonth :: "int \<Rightarrow> int \<Rightarrow> int" where
  "daysInMonth y m =
     (if m = 2 then (if y mod 4 = 0 \<and> (y mod 100 \<noteq> 0 \<or> y mod 400 = 0) then 29 else 28)
      else if m = 4 \<or> m = 6 \<or> m = 9 \<or> m = 11 then 30 else 31)"

definition digitsAt :: "jsstring \<Rightarrow> nat \<Rightarrow> nat \<Rightarrow> nat option" where
  "digitsAt s i n = parseDigits (take n (drop i s)) 0"

definition parseISO :: "jsstring \<Rightarrow> jsdate" where
  "parseISO s =
     (if length s = 24 \<and> s ! 4 = 45 \<and> s ! 7 = 45 \<and> s ! 10 = 84 \<and> s ! 13 = 58
         \<and> s ! 16 = 58 \<and> s ! 19 = 46 \<and> s ! 23 = 90
      then (case (digitsAt s 0 4, digitsAt s 5 2, digitsAt s 8 2, digitsAt s 11 2, digitsAt s 14 2,
                  digitsAt s 17 2, digitsAt s 20 3) of
              (Some y, Some m, Some d, Some hh, Some mm, Some ss, Some ms) \<Rightarrow>
                if 1 \<le> m \<and> m \<le> 12 \<and> 1 \<le> d \<and> int d \<le> daysInMonth (int y) (int m)
                   \<and> hh < 24 \<and> mm < 60 \<and> ss < 60
                then DateTime
                       ((((daysFromCivil (int y) (int m) (int d) * 24 + int hh) * 60 + int mm)
                          * 60 + int ss) * 1000 + int ms)
                else InvalidDate
            | _ \<Rightarrow> InvalidDate)
      else InvalidDate)"

fun refNewDate :: "jsvalue \<Rightarrow> jsdate" where
  "refNewDate (String s) = parseISO s"
| "refNewDate (Number (Num q)) =
     (if \<bar>q\<bar> \<le> 8640000000000000 then DateTime (if q < 0 then - \<lfloor>- q\<rfloor> else \<lfloor>q\<rfloor>)
      else InvalidDate)"
| "refNewDate Null = DateTime 0"
| "refNewDate (Bool b) = DateTime (if b then 1 else 0)"
| "refNewDate v = InvalidDate"

text \<open>
  The month of \<open>toDateString\<close>, and the \<open>short\<close> month of the \<open>en-GB\<close> locale, which
  writes \<open>Sept\<close>.
\<close>

definition monthName :: "int \<Rightarrow> jsstring" where
  "monthName m =
     [str ''Jan'', str ''Feb'', str ''Mar'', str ''Apr'', str ''May'', str ''Jun'', str ''Jul'',
      str ''Aug'', str ''Sep'', str ''Oct'', str ''Nov'', str ''Dec''] ! nat (m - 1)"

definition shortMonth_enGB :: "int \<Rightarrow> jsstring" where
  "shortMonth_enGB m =
     [str ''Jan'', str ''Feb'', str ''Mar'', str ''Apr'', str ''May'', str ''Jun'', str ''Jul'',
      str ''Aug'', str ''Sept'', str ''Oct'', str ''Nov'', str ''Dec''] ! nat (m - 1)"

definition dayName :: "int \<Rightarrow> jsstring" where
  "dayName z =
     [str ''Sun'', str ''Mon'', str ''Tue'', str ''Wed'', str ''Thu'', str ''Fri'', str ''Sat'']
       ! nat ((z + 4) mod 7)"

definition padLeft :: "nat \<Rightarrow> jsstring \<Rightarrow> jsstring" where
  "padLeft n s = replicate (n - length s) 48 @ s"

definition refToDateString :: "jsdate \<Rightarrow> jsstring" where
  "refToDateString d =
     (case d of
        InvalidDate \<Rightarrow> str ''Invalid Date''
      | DateTime t \<Rightarrow>
          (case civilFromDays (t div 86400000) of
             (y, m, dd) \<Rightarrow>
               dayName (t div 86400000) @ str '' '' @ monthName m @ str '' ''
                 @ padLeft 2 (digitsOf (nat dd)) @ str '' '' @ padLeft 4 (digitsOf (nat y))))"

definition refToLocaleDateString :: "jsdate \<Rightarrow> jsstring" where
  "refToLocaleDateString d =
     (case d of
        InvalidDate \<Rightarrow> str ''Invalid Date''
      | DateTime t \<Rightarrow>
          (case civilFromDays (t div 86400000) of
             (y, m, dd) \<Rightarrow>
               digitsOf (nat dd) @ str '' '' @ shortMonth_enGB m @ str '' ''
                 @ digitsOf (nat y)))"

definition offline :: "request \<Rightarrow> js_error + response" where
  "offline req = Inl (JsError TypeError (str ''Failed to fetch''))"

definition refPlatform :: platform where
  "refPlatform =
     \<lparr>REACT_APP_API_URL = None,
      fetch = offline,
      numberToString = refNumberToString,
      stringToNumber = refStringToNumber,
      numDivide = refDivide,
      toFixed = refToFixed,
      toLocaleString = refToLocaleString,
      newDate = refNewDate,
      toDateString = refToDateString,
      toLocaleDateString = refToLocaleDateString\<rparr>"

section \<open>Inputs of the examples\<close>

text \<open>A server that answers every request with the given status and body.\<close>

definition respond :: "nat \<Rightarrow> js_error + jsvalue \<Rightarrow> request \<Rightarrow> js_error + response" where
  "respond code b req = Inr \<lparr>status = code, statusText = [], json = b\<rparr>"

text \<open>The initial state of the component.\<close>

definition idleDashboard :: dashboard where
  "idleDashboard =
     \<lparr>currentPage = str ''home'', chatMessages = [], chatInput = [], chatLoading = False,
      chatHistoryLoaded = False, graphChatMessages = [], graphChatInput = [],
      graphChatLoading = False, graphChatHistoryLoaded = False\<rparr>"

text \<open>The filters object \<open>{}\<close>.\<close>

definition noFilters :: filters where
  "noFilters =
     \<lparr>regions = None, categories = None, customerTenure = None, customerRecency = None,
      totalTransactionsMin = None, totalTransactionsMax = None, discountMin = None,
      discountMax = None, timeFilter = None\<rparr>"

text \<open>A chart with no rows.\<close>

definition emptyBarChart :: "(jsstring \<times> jsvalue) list" where
  "emptyBarChart =
     [(str ''title'', String (str ''Revenue by month'')),
      (str ''chart_type'', String (str ''bar'')),
      (str ''data'', Array [])]"

text \<open>A chart with one row and no explicit keys.\<close>

definition monthlyChart :: "(jsstring \<times> jsvalue) list" where
  "monthlyChart =
     [(str ''data'',
       Array [Object [(str ''month'', String (str ''Jan'')),
                      (str ''revenue'', Number (Num 100))]])]"

text \<open>A chart whose first row has a column with the empty name, asked for as \<open>xKey\<close>.\<close>

definition blankKeyChart :: "(jsstring \<times> jsvalue) list" where
  "blankKeyChart =
     [(str ''data'',
       Array [Object [(str ''a'', Number (Num 1)), (str ''b'', Number (Num 2)),
                      ([], Number (Num 3))]]),
      (str ''xKey'', String [])]"

text \<open>The body \<open>{success: false, error: "LLM timeout"}\<close>.\<close>

definition timeoutPayload :: jsvalue where
  "timeoutPayload =
     Object [(str ''success'', Bool False), (str ''error'', String (str ''LLM timeout''))]"

text \<open>A history body with one row.\<close>

definition historyPayload :: jsvalue where
  "historyPayload =
     Object [(str ''success'', Bool True),
             (str ''history'',
              Array [Object [(str ''user_message'', String (str ''top regions'')),
                             (str ''created_at'', String (str ''2024-03-05T10:30:00.000Z''))]])]"

text \<open>A history body whose only row is \<open>null\<close>.\<close>

definition nullRowPayload :: jsvalue where
  "nullRowPayload = Object [(str ''success'', Bool True), (str ''history'', Array [Null])]"

text \<open>
  Four messages of the analysis thread: two of the fifth of March, one of the second
  of November, one without a timestamp; and a clock on the second of November.
\<close>

definition marchQuestion :: message where
  "marchQuestion =
     \<lparr>role = User, content = String (str ''total revenue?''),
      timestamp = String (str ''2024-03-05T10:30:00.000Z''), charts = Undefined\<rparr>"

definition undatedAnswer :: message where
  "undatedAnswer =
     \<lparr>role = Assistant, content = String (str ''1.2M''), timestamp = Undefined,
      charts = Undefined\<rparr>"

definition marchFollowUp :: message where
  "marchFollowUp =
     \<lparr>role = User, content = String (str ''by region?''),
      timestamp = String (str ''2024-03-05T18:02:11.000Z''), charts = Undefined\<rparr>"

definition novemberQuestion :: message where
  "novemberQuestion =
     \<lparr>role = User, content = String (str ''and this month?''),
      timestamp = String (str ''2024-11-02T09:15:00.000Z''), charts = Undefined\<rparr>"

definition secondOfNovember :: jsdate where
  "secondOfNovember = DateTime 1730548800000"

section \<open>Where the dividers are expected\<close>

text \<open>
  The date labels of a message sequence, and the label of the closest message before
  a position that has a label at all (a message without a timestamp has the empty
  label). A divider is expected before message \<open>i\<close> when its label is not empty and is
  not that label; \<open>groupAt\<close> is what the grouping is expected to hold for message \<open>i\<close>.
\<close>

definition dateLabels :: "platform \<Rightarrow> jsdate \<Rightarrow> message list \<Rightarrow> jsstring list" where
  "dateLabels P today msgs = map (\<lambda>msg. formatDate P today (timestamp msg)) msgs"

definition lastLabel :: "jsstring list \<Rightarrow> jsstring option" where
  "lastLabel ls =
     (if filter (\<lambda>l. l \<noteq> []) ls = [] then None else Some (last (filter (\<lambda>l. l \<noteq> []) ls)))"

definition dividerBefore :: "jsstring list \<Rightarrow> nat \<Rightarrow> bool" where
  "dividerBefore ls i = (ls ! i \<noteq> [] \<and> lastLabel (take i ls) \<noteq> Some (ls ! i))"

definition groupAt :: "platform \<Rightarrow> jsdate \<Rightarrow> message list \<Rightarrow> nat \<Rightarrow> group_item list" where
  "groupAt P today msgs i =
     (if dividerBefore (dateLabels P today msgs) i
      then [Divider (dateLabels P today msgs ! i) (str ''divider-'' @ digitsOf i)] else [])
     @ [MessageItem (msgs ! i) (str ''msg-'' @ digitsOf i)]"

text \<open>The messages of a grouping, in order.\<close>

fun messagesOf :: "group_item list \<Rightarrow> message list" where
  "messagesOf [] = []"
| "messagesOf (Divider l k # gs) = messagesOf gs"
| "messagesOf (MessageItem m k # gs) = m # messagesOf gs"

section \<open>What a filter field contributes to the query\<close>

text \<open>
  The value a query is expected to carry under the name of a field, \<open>None\<close> when the
  parameter is to be left out: a list contributes its elements joined by commas unless
  it is absent or empty, a number its string unless it is absent or not greater than
  zero, and the time filter itself unless it is absent, empty or \<open>all\<close>.
\<close>

definition listParam :: "jsstring list option \<Rightarrow> jsstring option" where
  "listParam f = (case f of Some (x # xs) \<Rightarrow> Some (join (str '','') (x # xs)) | _ \<Rightarrow> None)"

definition numberParam :: "platform \<Rightarrow> jsnumber option \<Rightarrow> jsstring option" where
  "numberParam P f =
     (case f of
        Some (Num q) \<Rightarrow> if 0 < q then Some (numberToString P (Num q)) else None
      | _ \<Rightarrow> None)"

definition timeParam :: "jsstring option \<Rightarrow> jsstring option" where
  "timeParam f =
     (case f of
        Some s \<Rightarrow> if s \<noteq> [] \<and> s \<noteq> str ''all'' then Some s else None
      | None \<Rightarrow> None)"

definition orElse :: "'a option \<Rightarrow> 'a option \<Rightarrow> 'a option" where
  "orElse a b = (case a of Some w \<Rightarrow> Some w | None \<Rightarrow> b)"

section \<open>String literals\<close>

lemma of_char_nat_less: "(of_char c :: nat) < 2 ^ 16"
proof -
  have "(of_char c :: nat) = of_char c mod 256"
    by simp
  also have "\<dots> < 256"
    by (rule mod_less_divisor) simp
  finally have "(of_char c :: nat) < 256" .
  then show ?thesis
    by (rule less_trans) simp
qed

lemma unat_of_char: "unat (of_char c :: 16 word) = of_char c"
proof -
  have "(of_char c :: 16 word) = of_nat (of_char c)"
    by (simp only: of_nat_of_char)
  then show ?thesis
    using of_char_nat_less [of c] by (simp add: unat_of_nat take_bit_nat_eq_self)
qed

lemma of_char_word_eq_iff: "(of_char a :: 16 word) = of_char b \<longleftrightarrow> a = b"
proof
  assume "(of_char a :: 16 word) = of_char b"
  then have "unat (of_char a :: 16 word) = unat (of_char b :: 16 word)"
    by simp
  then show "a = b"
    by (simp add: unat_of_char)
qed simp

lemma str_eq_iff: "str a = str b \<longleftrightarrow> a = b"
  unfolding str_def by (simp add: inj_on_def of_char_word_eq_iff)

lemma str_Nil_iff: "str a = [] \<longleftrightarrow> a = []"
  by (simp add: str_def)

lemma Nil_str_iff: "[] = str a \<longleftrightarrow> a = []"
  by (auto simp add: str_def)

lemma str_append: "str (a @ b) = str a @ str b"
  by (simp add: str_def)

section \<open>Sending while busy or with blank input\<close>

lemma trim_blank:
  assumes "\<forall>c\<in>set s. isWhiteSpace c"
  shows "trim s = []"
proof -
  have d: "dropWhile isWhiteSpace s = []"
    using assms by simp
  show ?thesis
    unfolding trim_def d by simp
qed

text \<open>
  Claim C1. In either thread, a send while the thread's in-flight flag is set, or with
  an input that is empty or consists of white space only, changes nothing: the handler
  returns the state it was given, so the message list is the same, and the list of
  requests it has issued is empty.
\<close>

theorem send_ignored:
  "((chatLoading st \<or> (\<forall>c\<in>set (chatInput st). isWhiteSpace c))
      \<longrightarrow> handleSendMessage P now later st = (st, []))
   \<and> ((graphChatLoading st \<or> (\<forall>c\<in>set (graphChatInput st). isWhiteSpace c))
      \<longrightarrow> handleSendGraphMessage P now later st = (st, []))"
  by (auto simp add: handleSendMessage_def handleSendGraphMessage_def Let_def trim_blank)

theorem send_ignored_witness:
  "chatLoading (idleDashboard\<lparr>chatInput := str ''total revenue?'', chatLoading := True,
        graphChatInput := str '' ''\<rparr>)
   \<and> list_all isWhiteSpace (graphChatInput (idleDashboard\<lparr>chatInput := str ''total revenue?'',
        chatLoading := True, graphChatInput := str '' ''\<rparr>))
   \<and> handleSendMessage refPlatform (str ''t'') (str ''u'')
        (idleDashboard\<lparr>chatInput := str ''total revenue?'', chatLoading := True,
          graphChatInput := str '' ''\<rparr>)
       = (idleDashboard\<lparr>chatInput := str ''total revenue?'', chatLoading := True,
          graphChatInput := str '' ''\<rparr>, [])
   \<and> handleSendGraphMessage refPlatform (str ''t'') (str ''u'')
        (idleDashboard\<lparr>chatInput := str ''total revenue?'', chatLoading := True,
          graphChatInput := str '' ''\<rparr>)
       = (idleDashboard\<lparr>chatInput := str ''total revenue?'', chatLoading := True,
          graphChatInput := str '' ''\<rparr>, [])"
  using send_ignored [of "idleDashboard\<lparr>chatInput := str ''total revenue?'', chatLoading := True,
          graphChatInput := str '' ''\<rparr>" refPlatform "str ''t''" "str ''u''"]
  by (simp add: str_def isWhiteSpace_def)

section \<open>The dashboard fetch never rejects\<close>

lemma fetchDashboardData_cases:
  "fetchDashboardData P f =
     (case fetch P (GET (dashboardUrl P f)) of
        Inl e \<Rightarrow> Inr Null
      | Inr r \<Rightarrow>
          if ok r then (case json r of Inr (Array (x # xs)) \<Rightarrow> Inr x | _ \<Rightarrow> Inr Null)
          else Inr Null)"
  by (simp add: fetchDashboardData_def fetchDashboardData_try_def
      split: sum.splits jsvalue.splits list.splits)

text \<open>
  Claim C3. \<open>fetchDashboardData\<close> always resolves. When the request is answered with a
  status from 200 to 299 and the body parses as a non-empty array, it resolves to the
  first element of the array. In every other case (the request fails, the status is
  outside that range, the body does not parse, or parses as something else than a
  non-empty array) it resolves to \<open>null\<close>. It never rejects.
\<close>

theorem fetchDashboardData_resolves:
  "(\<forall>r x xs. fetch P (GET (dashboardUrl P f)) = Inr r \<and> ok r \<and> json r = Inr (Array (x # xs))
       \<longrightarrow> fetchDashboardData P f = Inr x)
   \<and> ((\<nexists>r x xs. fetch P (GET (dashboardUrl P f)) = Inr r \<and> ok r \<and> json r = Inr (Array (x # xs)))
       \<longrightarrow> fetchDashboardData P f = Inr Null)
   \<and> (\<exists>v. fetchDashboardData P f = Inr v)"
  by (auto simp add: fetchDashboardData_cases split: sum.splits jsvalue.splits list.splits)

theorem fetchDashboardData_resolves_witness:
  "fetchDashboardData
     (refPlatform\<lparr>fetch := respond 200 (Inr (Array [Object [(str ''kpis'', Array [])], Null]))\<rparr>)
     noFilters
   = Inr (Object [(str ''kpis'', Array [])])
   \<and> fetchDashboardData
     (refPlatform\<lparr>fetch := respond 500 (Inr (Array [Object [(str ''kpis'', Array [])], Null]))\<rparr>)
     noFilters
   = Inr Null"
  using fetchDashboardData_resolves
    [of "refPlatform\<lparr>fetch := respond 200 (Inr (Array [Object [(str ''kpis'', Array [])], Null]))\<rparr>"
        noFilters]
   fetchDashboardData_resolves
    [of "refPlatform\<lparr>fetch := respond 500 (Inr (Array [Object [(str ''kpis'', Array [])], Null]))\<rparr>"
        noFilters]
  by (simp add: respond_def ok_def)

section \<open>The query of the dashboard fetch\<close>

lemma orElse_simps: "orElse None b = b" "orElse a None = a"
  by (simp_all add: orElse_def split: option.splits)

lemma getParam_Nil: "getParam [] k = None"
  by (simp add: getParam_def)

lemma getParam_append_entry:
  "getParam (append_entry ps k v) k' = orElse (getParam ps k') (if k' = k then Some v else None)"
  by (simp add: getParam_def append_entry_def map_add_def orElse_def split: option.splits)

lemma getParam_appendList:
  "getParam (appendList ps k f) k' = orElse (getParam ps k') (if k' = k then listParam f else None)"
  by (simp add: appendList_def getParam_append_entry listParam_def orElse_def
       split: option.splits list.splits)

lemma getParam_appendNumber:
  "getParam (appendNumber P ps k f) k' =
     orElse (getParam ps k') (if k' = k then numberParam P f else None)"
  by (simp add: appendNumber_def getParam_append_entry numberParam_def orElse_def
       split: option.splits jsnumber.splits)

lemma getParam_appendTimeFilter:
  "getParam (appendTimeFilter ps f) k' =
     orElse (getParam ps k') (if k' = str ''timeFilter'' then timeParam f else None)"
  by (simp add: appendTimeFilter_def getParam_append_entry timeParam_def orElse_def
       split: option.splits)

lemmas getParam_steps =
  getParam_Nil getParam_appendList getParam_appendNumber getParam_appendTimeFilter
  orElse_simps str_eq_iff

lemma param_regions:
  "getParam (dashboardParams P f) (str ''regions'') = listParam (regions f)"
  by (simp add: dashboardParams_def Let_def getParam_steps)

lemma param_categories:
  "getParam (dashboardParams P f) (str ''categories'') = listParam (categories f)"
  by (simp add: dashboardParams_def Let_def getParam_steps)

lemma param_customerTenure:
  "getParam (dashboardParams P f) (str ''customerTenure'') = listParam (customerTenure f)"
  by (simp add: dashboardParams_def Let_def getParam_steps)

lemma param_customerRecency:
  "getParam (dashboardParams P f) (str ''customerRecency'') = listParam (customerRecency f)"
  by (simp add: dashboardParams_def Let_def getParam_steps)

lemma param_totalTransactionsMin:
  "getParam (dashboardParams P f) (str ''totalTransactionsMin'')
     = numberParam P (totalTransactionsMin f)"
  by (simp add: dashboardParams_def Let_def getParam_steps)

lemma param_totalTransactionsMax:
  "getParam (dashboardParams P f) (str ''totalTransactionsMax'')
     = numberParam P (totalTransactionsMax f)"
  by (simp add: dashboardParams_def Let_def getParam_steps)

lemma param_discountMin:
  "getParam (dashboardParams P f) (str ''discountMin'') = numberParam P (discountMin f)"
  by (simp add: dashboardParams_def Let_def getParam_steps)

lemma param_discountMax:
  "getParam (dashboardParams P f) (str ''discountMax'') = numberParam P (discountMax f)"
  by (simp add: dashboardParams_def Let_def getParam_steps)

lemma param_timeFilter:
  "getParam (dashboardParams P f) (str ''timeFilter'') = timeParam (timeFilter f)"
  by (simp add: dashboardParams_def Let_def getParam_steps)

lemma west_url:
  "dashboardUrl refPlatform
     (noFilters\<lparr>regions := Some [str ''West''], totalTransactionsMin := Some (Num 5)\<rparr>)
   = str ''http://localhost:5000/api/data?regions=West&totalTransactionsMin=5''"
  by code_simp

text \<open>
  Claim C2, as amended. For every filters object, the query of \<open>fetchDashboardData\<close>
  leaves out a categorical parameter exactly when its list is absent or empty and
  otherwise carries the list joined by commas; it leaves out a numeric bound exactly
  when the bound is absent or not greater than zero (zero, negative or \<open>NaN\<close>) and
  otherwise carries its string; it leaves out \<open>timeFilter\<close> exactly when it is absent,
  empty or \<open>all\<close>. For \<open>{regions: ["West"], totalTransactionsMin: 5}\<close> the query string
  is \<open>regions=West&totalTransactionsMin=5\<close>, with no other parameter.
\<close>

theorem dashboard_query:
  "getParam (dashboardParams P f) (str ''regions'') = listParam (regions f)
   \<and> getParam (dashboardParams P f) (str ''categories'') = listParam (categories f)
   \<and> getParam (dashboardParams P f) (str ''customerTenure'') = listParam (customerTenure f)
   \<and> getParam (dashboardParams P f) (str ''customerRecency'') = listParam (customerRecency f)
   \<and> getParam (dashboardParams P f) (str ''totalTransactionsMin'')
       = numberParam P (totalTransactionsMin f)
   \<and> getParam (dashboardParams P f) (str ''totalTransactionsMax'')
       = numberParam P (totalTransactionsMax f)
   \<and> getParam (dashboardParams P f) (str ''discountMin'') = numberParam P (discountMin f)
   \<and> getParam (dashboardParams P f) (str ''discountMax'') = numberParam P (discountMax f)
   \<and> getParam (dashboardParams P f) (str ''timeFilter'') = timeParam (timeFilter f)
   \<and> dashboardUrl refPlatform
        (noFilters\<lparr>regions := Some [str ''West''], totalTransactionsMin := Some (Num 5)\<rparr>)
       = str ''http://localhost:5000/api/data?regions=West&totalTransactionsMin=5''"
  by (simp only: param_regions param_categories param_customerTenure param_customerRecency
        param_totalTransactionsMin param_totalTransactionsMax param_discountMin
        param_discountMax param_timeFilter west_url simp_thms)

theorem dashboard_query_witness:
  "getParam (dashboardParams refPlatform
      (noFilters\<lparr>regions := Some [str ''West'', str ''North''],
         discountMin := Some (Num 0), discountMax := Some (Num 3),
         timeFilter := Some (str ''all'')\<rparr>)) (str ''regions'') = Some (str ''West,North'')
   \<and> getParam (dashboardParams refPlatform
      (noFilters\<lparr>regions := Some [str ''West'', str ''North''],
         discountMin := Some (Num 0), discountMax := Some (Num 3),
         timeFilter := Some (str ''all'')\<rparr>)) (str ''categories'') = None
   \<and> getParam (dashboardParams refPlatform
      (noFilters\<lparr>regions := Some [str ''West'', str ''North''],
         discountMin := Some (Num 0), discountMax := Some (Num 3),
         timeFilter := Some (str ''all'')\<rparr>)) (str ''discountMin'') = None
   \<and> getParam (dashboardParams refPlatform
      (noFilters\<lparr>regions := Some [str ''West'', str ''North''],
         discountMin := Some (Num 0), discountMax := Some (Num 3),
         timeFilter := Some (str ''all'')\<rparr>)) (str ''discountMax'') = Some (str ''3'')
   \<and> getParam (dashboardParams refPlatform
      (noFilters\<lparr>regions := Some [str ''West'', str ''North''],
         discountMin := Some (Num 0), discountMax := Some (Num 3),
         timeFilter := Some (str ''all'')\<rparr>)) (str ''timeFilter'') = None"
  using dashboard_query [of refPlatform
      "noFilters\<lparr>regions := Some [str ''West'', str ''North''],
         discountMin := Some (Num 0), discountMax := Some (Num 3),
         timeFilter := Some (str ''all'')\<rparr>"]
  by (simp add: noFilters_def listParam_def numberParam_def timeParam_def refPlatform_def
        refNumberToString_def digitsOf.simps str_def)

theorem dashboard_query_counterexample:
  "discountMin (noFilters\<lparr>discountMin := Some (Num (- 1))\<rparr>) = Some (Num (- 1))
   \<and> Num (- 1) \<noteq> Num 0
   \<and> getParam (dashboardParams refPlatform (noFilters\<lparr>discountMin := Some (Num (- 1))\<rparr>))
        (str ''discountMin'') = None"
  by (simp add: param_discountMin numberParam_def)

section \<open>Charts without rows\<close>

lemma getProp_Object:
  "getProp (Object props) k = Inr (case map_of props k of None \<Rightarrow> Undefined | Some v \<Rightarrow> v)"
  by simp

lemma readProp_Object:
  "readProp (Object props) k = (case map_of props k of None \<Rightarrow> Undefined | Some v \<Rightarrow> v)"
  by (simp add: readProp_def)

lemma not_array_invalid:
  "\<not> isArray v \<or> v = Array [] \<Longrightarrow> \<not> truthy v \<or> \<not> isArray v \<or> length (elements v) = 0"
  by (cases v) auto

text \<open>
  Claim C4. A chart object whose \<open>chart_type\<close> is not \<open>"error"\<close> and whose \<open>data\<close> is
  missing, not an array, or an empty array is rendered as the no-data placeholder
  carrying the chart's title: the renderer returns that placeholder, not a plan and
  not a thrown error.
\<close>

theorem no_data_placeholder:
  assumes "map_of props (str ''chart_type'') \<noteq> Some (String (str ''error''))"
    and "map_of props (str ''data'') = None
       \<or> (\<exists>v. map_of props (str ''data'') = Some v \<and> \<not> isArray v)
       \<or> map_of props (str ''data'') = Some (Array [])"
  shows "renderChart (Object props) =
     Inr (NoDataPlaceholder
            (case map_of props (str ''title'') of None \<Rightarrow> Undefined | Some t \<Rightarrow> t))"
proof -
  have ty: "(case map_of props (str ''chart_type'') of None \<Rightarrow> Undefined | Some v \<Rightarrow> v)
      \<noteq> String (str ''error'')"
    using assms(1) by (auto split: option.splits)
  have "\<not> isArray (readProp (Object props) (str ''data''))
      \<or> readProp (Object props) (str ''data'') = Array []"
    using assms(2) by (auto simp add: readProp_Object)
  then have bad: "\<not> truthy (readProp (Object props) (str ''data''))
      \<or> \<not> isArray (readProp (Object props) (str ''data''))
      \<or> length (elements (readProp (Object props) (str ''data''))) = 0"
    by (rule not_array_invalid)
  show ?thesis
    unfolding renderChart_def getProp_Object using ty bad
    by (simp add: Let_def readProp_Object)
qed

theorem no_data_placeholder_witness:
  "map_of emptyBarChart (str ''chart_type'') \<noteq> Some (String (str ''error''))
   \<and> map_of emptyBarChart (str ''data'') = Some (Array [])
   \<and> renderChart (Object emptyBarChart)
       = Inr (NoDataPlaceholder (String (str ''Revenue by month'')))"
  using no_data_placeholder [of emptyBarChart]
  by (simp add: emptyBarChart_def str_eq_iff)

section \<open>The keys of a chart\<close>

lemma resolveKey_cases:
  "resolveKey key allKeys i =
     (case key of
        String k \<Rightarrow> if k \<noteq> [] \<and> k \<in> set allKeys then String k else keyAt allKeys i
      | _ \<Rightarrow> keyAt allKeys i)"
  by (cases key) (auto simp add: resolveKey_def)

text \<open>
  Claim C5, as amended. For every chart object whose \<open>data\<close> is an array with an object
  as its first row, the resolved \<open>xKey\<close> is the provided \<open>xKey\<close> if that is a non-empty
  string naming a property of the first row, and otherwise the first key of the first
  row; the resolved \<open>yKey\<close> is the provided \<open>yKey\<close> if that is a non-empty string naming
  a property of the first row, and otherwise the second key of the first row
  (\<open>undefined\<close> when the row has no such key).
\<close>

theorem keys_resolved:
  assumes "map_of props (str ''data'') = Some (Array (Object row # rows))"
  shows "deriveKeys (Object props) =
     Inr (map fst row,
          (case map_of props (str ''xKey'') of
             Some (String k) \<Rightarrow>
               if k \<noteq> [] \<and> k \<in> set (map fst row) then String k else keyAt (map fst row) 0
           | _ \<Rightarrow> keyAt (map fst row) 0),
          (case map_of props (str ''yKey'') of
             Some (String k) \<Rightarrow>
               if k \<noteq> [] \<and> k \<in> set (map fst row) then String k else keyAt (map fst row) 1
           | _ \<Rightarrow> keyAt (map fst row) 1))"
  using assms
  by (simp add: deriveKeys_def readProp_Object resolveKey_cases Let_def
        split: option.splits jsvalue.splits)

theorem keys_resolved_witness:
  "map_of monthlyChart (str ''data'')
     = Some (Array (Object [(str ''month'', String (str ''Jan'')),
                            (str ''revenue'', Number (Num 100))] # []))
   \<and> deriveKeys (Object monthlyChart) =
       Inr ([str ''month'', str ''revenue''], String (str ''month''), String (str ''revenue''))
   \<and> renderChart (Object monthlyChart) =
       Inr (Plan \<lparr>kind = Bar, planTitle = Undefined,
              planData = [Object [(str ''month'', String (str ''Jan'')),
                                  (str ''revenue'', Number (Num 100))]],
              xDataKey = String (str ''month''), yDataKey = String (str ''revenue''),
              angle = 0, textAnchor = str ''middle'', height = 30\<rparr>)"
proof -
  have keys: "deriveKeys (Object monthlyChart) =
       Inr ([str ''month'', str ''revenue''], String (str ''month''), String (str ''revenue''))"
    using keys_resolved [of monthlyChart "[(str ''month'', String (str ''Jan'')),
                            (str ''revenue'', Number (Num 100))]" "[]"]
    by (simp add: monthlyChart_def keyAt_def str_eq_iff)
  show ?thesis
    unfolding renderChart_def keys
    by (simp add: monthlyChart_def readProp_def js_or_def str_eq_iff str_Nil_iff)
qed

theorem keys_resolved_counterexample:
  "readProp (Object blankKeyChart) (str ''xKey'') = String []
   \<and> objectKeys (elements (readProp (Object blankKeyChart) (str ''data'')) ! 0)
       = Inr [str ''a'', str ''b'', []]
   \<and> [] \<in> set [str ''a'', str ''b'', []]
   \<and> deriveKeys (Object blankKeyChart)
       = Inr ([str ''a'', str ''b'', []], String (str ''a''), String (str ''b''))
   \<and> String (str ''a'') \<noteq> String []"
  by (simp add: blankKeyChart_def deriveKeys_def readProp_def resolveKey_def keyAt_def
        str_eq_iff str_Nil_iff)

section \<open>Replies of the chart thread\<close>

lemma handleSendGraphMessage_sent:
  assumes "trim (graphChatInput st) \<noteq> []" and "\<not> graphChatLoading st"
  shows "handleSendGraphMessage P now later st =
     (st\<lparr>graphChatMessages := graphChatMessages st
           @ [\<lparr>role = User, content = String (trim (graphChatInput st)),
               timestamp = String now, charts = Undefined\<rparr>,
              graphReply P (trim (graphChatInput st)) later],
         graphChatInput := [], graphChatLoading := False\<rparr>,
      [graphRequest P (trim (graphChatInput st))])"
  using assms by (simp add: handleSendGraphMessage_def Let_def)

lemma graphReply_timeout:
  assumes "fetch P (graphRequest P text) = Inr r" and "json r = Inr timeoutPayload"
  shows "graphReply P text later =
     \<lparr>role = Assistant, content = String (str ''Sorry, I ran into an issue: LLM timeout''),
      timestamp = String later, charts = Array []\<rparr>"
  using assms
  by (simp add: graphReply_def graphReply_try_def timeoutPayload_def readProp_def js_or_def
        str_def)

lemma trim_sales: "trim (str '' sales by region '') = str ''sales by region''"
  by (simp add: trim_def str_def isWhiteSpace_def)

text \<open>
  Claim C6. When the chart-generation request is answered with the body
  \<open>{success: false, error: "LLM timeout"}\<close>, a send that is not ignored appends to the
  chart thread the user message and exactly one assistant message, whose content is
  \<open>Sorry, I ran into an issue: LLM timeout\<close> and whose \<open>charts\<close> is the empty array, and
  the sending flag is false afterwards.
\<close>

theorem graph_send_reports_failure:
  assumes "trim (graphChatInput st) \<noteq> []" and "\<not> graphChatLoading st"
    and "fetch P (graphRequest P (trim (graphChatInput st))) = Inr r"
    and "json r = Inr timeoutPayload"
  shows "graphChatMessages (fst (handleSendGraphMessage P now later st)) =
       graphChatMessages st
         @ [\<lparr>role = User, content = String (trim (graphChatInput st)),
             timestamp = String now, charts = Undefined\<rparr>,
            \<lparr>role = Assistant,
             content = String (str ''Sorry, I ran into an issue: LLM timeout''),
             timestamp = String later, charts = Array []\<rparr>]
     \<and> graphChatLoading (fst (handleSendGraphMessage P now later st)) = False"
  using assms by (simp add: handleSendGraphMessage_sent graphReply_timeout)

theorem graph_send_reports_failure_witness:
  "trim (graphChatInput (idleDashboard\<lparr>graphChatInput := str '' sales by region ''\<rparr>)) \<noteq> []
   \<and> \<not> graphChatLoading (idleDashboard\<lparr>graphChatInput := str '' sales by region ''\<rparr>)
   \<and> graphChatMessages (fst (handleSendGraphMessage
         (refPlatform\<lparr>fetch := respond 200 (Inr timeoutPayload)\<rparr>)
         (str ''2024-03-05T10:30:00.000Z'') (str ''2024-03-05T10:30:09.000Z'')
         (idleDashboard\<lparr>graphChatInput := str '' sales by region ''\<rparr>)))
     = [\<lparr>role = User, content = String (str ''sales by region''),
         timestamp = String (str ''2024-03-05T10:30:00.000Z''), charts = Undefined\<rparr>,
        \<lparr>role = Assistant,
         content = String (str ''Sorry, I ran into an issue: LLM timeout''),
         timestamp = String (str ''2024-03-05T10:30:09.000Z''), charts = Array []\<rparr>]
   \<and> graphChatLoading (fst (handleSendGraphMessage
         (refPlatform\<lparr>fetch := respond 200 (Inr timeoutPayload)\<rparr>)
         (str ''2024-03-05T10:30:00.000Z'') (str ''2024-03-05T10:30:09.000Z'')
         (idleDashboard\<lparr>graphChatInput := str '' sales by region ''\<rparr>))) = False"
  using graph_send_reports_failure
    [of "idleDashboard\<lparr>graphChatInput := str '' sales by region ''\<rparr>"
        "refPlatform\<lparr>fetch := respond 200 (Inr timeoutPayload)\<rparr>"
        "\<lparr>status = 200, statusText = [], json = Inr timeoutPayload\<rparr>"
        "str ''2024-03-05T10:30:00.000Z''" "str ''2024-03-05T10:30:09.000Z''"]
  by (simp add: trim_sales idleDashboard_def respond_def str_eq_iff str_Nil_iff)

lemma graphReply_rejected:
  assumes "fetch P (graphRequest P text) = Inl err
     \<or> (\<exists>r. fetch P (graphRequest P text) = Inr r \<and> json r = Inl err)"
  shows "graphReply P text later =
     \<lparr>role = Assistant, content = String (str ''Connection error: '' @ errorMessage err),
      timestamp = String later, charts = Array []\<rparr>"
  using assms by (auto simp add: graphReply_def graphReply_try_def)

lemma prefixes_differ:
  "str ''Connection error: '' @ m \<noteq> str ''Sorry, I ran into an issue: '' @ x"
  by (simp add: str_def)

text \<open>
  Claim C10. When the request of a chart-thread send fails (\<open>fetch\<close> rejects, or the
  body of the response does not parse as JSON), a send that is not ignored appends the
  user message and exactly one assistant message, whose content is \<open>Connection error: \<close>
  followed by the message of the error and whose \<open>charts\<close> is the empty array; that
  content never starts with \<open>Sorry, I ran into an issue: \<close>, and the sending flag is
  false afterwards.
\<close>

theorem graph_send_connection_error:
  assumes "trim (graphChatInput st) \<noteq> []" and "\<not> graphChatLoading st"
    and "fetch P (graphRequest P (trim (graphChatInput st))) = Inl err
       \<or> (\<exists>r. fetch P (graphRequest P (trim (graphChatInput st))) = Inr r \<and> json r = Inl err)"
  shows "graphChatMessages (fst (handleSendGraphMessage P now later st)) =
       graphChatMessages st
         @ [\<lparr>role = User, content = String (trim (graphChatInput st)),
             timestamp = String now, charts = Undefined\<rparr>,
            \<lparr>role = Assistant,
             content = String (str ''Connection error: '' @ errorMessage err),
             timestamp = String later, charts = Array []\<rparr>]
     \<and> graphChatLoading (fst (handleSendGraphMessage P now later st)) = False
     \<and> (\<forall>x. str ''Connection error: '' @ errorMessage err
            \<noteq> str ''Sorry, I ran into an issue: '' @ x)"
  using assms by (simp add: handleSendGraphMessage_sent graphReply_rejected prefixes_differ)

theorem graph_send_connection_error_witness:
  "trim (graphChatInput (idleDashboard\<lparr>graphChatInput := str '' sales by region ''\<rparr>)) \<noteq> []
   \<and> \<not> graphChatLoading (idleDashboard\<lparr>graphChatInput := str '' sales by region ''\<rparr>)
   \<and> fetch refPlatform
        (graphRequest refPlatform
           (trim (graphChatInput (idleDashboard\<lparr>graphChatInput := str '' sales by region ''\<rparr>))))
      = Inl (JsError TypeError (str ''Failed to fetch''))
   \<and> graphChatMessages (fst (handleSendGraphMessage refPlatform
         (str ''2024-03-05T10:30:00.000Z'') (str ''2024-03-05T10:30:09.000Z'')
         (idleDashboard\<lparr>graphChatInput := str '' sales by region ''\<rparr>)))
     = [\<lparr>role = User, content = String (str ''sales by region''),
         timestamp = String (str ''2024-03-05T10:30:00.000Z''), charts = Undefined\<rparr>,
        \<lparr>role = Assistant,
         content = String (str ''Connection error: Failed to fetch''),
         timestamp = String (str ''2024-03-05T10:30:09.000Z''), charts = Array []\<rparr>]
   \<and> graphChatLoading (fst (handleSendGraphMessage refPlatform
         (str ''2024-03-05T10:30:00.000Z'') (str ''2024-03-05T10:30:09.000Z'')
         (idleDashboard\<lparr>graphChatInput := str '' sales by region ''\<rparr>))) = False"
  using graph_send_connection_error
    [of "idleDashboard\<lparr>graphChatInput := str '' sales by region ''\<rparr>"
        refPlatform "JsError TypeError (str ''Failed to fetch'')"
        "str ''2024-03-05T10:30:00.000Z''" "str ''2024-03-05T10:30:09.000Z''"]
  by (simp add: trim_sales idleDashboard_def refPlatform_def offline_def str_eq_iff str_Nil_iff)
     (simp add: str_def)

section \<open>History hydration\<close>

lemma fetchChatHistory_failed:
  assumes "fetch P (chatHistoryRequest P) = Inl e
     \<or> (\<exists>r. fetch P (chatHistoryRequest P) = Inr r \<and> \<not> ok r)"
  shows "fetchChatHistory P = Inr (Array [])"
  using assms by (auto simp add: fetchChatHistory_def fetchChatHistory_try_def)

lemma fetchChatHistory_resolves: "\<exists>v. fetchChatHistory P = Inr v"
  by (simp add: fetchChatHistory_def split: sum.splits)

lemma chat_callback_empty:
  "chatHistoryLoadedCallback P (Array []) st = Inr (st\<lparr>chatHistoryLoaded := True\<rparr>)"
  by (simp add: chatHistoryLoadedCallback_def gt0_def)

lemma chat_failed:
  assumes "currentPage st = str ''text''" and "\<not> chatHistoryLoaded st"
    and "fetch P (chatHistoryRequest P) = Inl e
     \<or> (\<exists>r. fetch P (chatHistoryRequest P) = Inr r \<and> \<not> ok r)"
  shows "chatHistoryEffect P st = (st\<lparr>chatHistoryLoaded := True\<rparr>, None)"
  using assms(1,2) fetchChatHistory_failed [OF assms(3)]
  by (simp add: chatHistoryEffect_def chat_callback_empty)

lemma graph_callback_loaded:
  "graphHistoryCallback P data st = Inr st' \<Longrightarrow> graphChatHistoryLoaded st'"
  by (auto simp add: graphHistoryCallback_def split: sum.splits if_splits jsvalue.splits)

lemma graph_loaded:
  assumes "currentPage st = str ''graphs''"
  shows "graphChatHistoryLoaded (graphHistoryEffect P st)"
  using assms
  by (auto simp add: graphHistoryEffect_def graphHistory_chain_def
        split: sum.splits if_splits dest: graph_callback_loaded)

lemma graph_rejected:
  assumes "currentPage st = str ''graphs''" and "\<not> graphChatHistoryLoaded st"
    and "fetch P (graphHistoryRequest P) = Inl e"
  shows "graphHistoryEffect P st = st\<lparr>graphChatHistoryLoaded := True\<rparr>"
  using assms by (simp add: graphHistoryEffect_def graphHistory_chain_def)

text \<open>
  Claim C7. The claim is that a failed chat-history or graph-history fetch (a network
  error or a status outside 200 to 299) yields an empty message sequence, with no error
  thrown and the message list of the thread still empty, and that the thread's
  \<open>historyLoaded\<close> flag is true after every hydration attempt. The program departs from
  it at two responses. A graph-history request answered with status 500 and a body
  that reports success with one row: on that response \<open>fetchChatHistory\<close> resolves to
  the empty array and the chat thread stays empty, while the graph effect, which has no
  test of the status, puts two messages into the graph thread. A chat-history request
  answered with status 200 and the history \<open>[null]\<close>: the callback throws a
  \<open>TypeError\<close>, the chat effect has no \<open>catch\<close>, and \<open>chatHistoryLoaded\<close> is still false.
\<close>

theorem history_hydration_diverges:
  "\<not> ok \<lparr>status = 500, statusText = [], json = Inr historyPayload\<rparr>
   \<and> fetchChatHistory (refPlatform\<lparr>fetch := respond 500 (Inr historyPayload)\<rparr>)
       = Inr (Array [])
   \<and> chatHistoryEffect (refPlatform\<lparr>fetch := respond 500 (Inr historyPayload)\<rparr>)
        (idleDashboard\<lparr>currentPage := str ''text''\<rparr>)
       = (idleDashboard\<lparr>currentPage := str ''text'', chatHistoryLoaded := True\<rparr>, None)
   \<and> graphChatMessages (idleDashboard\<lparr>currentPage := str ''graphs''\<rparr>) = []
   \<and> graphChatMessages
       (graphHistoryEffect (refPlatform\<lparr>fetch := respond 500 (Inr historyPayload)\<rparr>)
          (idleDashboard\<lparr>currentPage := str ''graphs''\<rparr>))
     = [\<lparr>role = User, content = String (str ''top regions''),
         timestamp = String (str ''2024-03-05T10:30:00.000Z''), charts = Undefined\<rparr>,
        \<lparr>role = Assistant,
         content = String ([0xD83D, 0xDCCA]
           @ str '' Charts were generated for this question (re-ask to regenerate).''),
         timestamp = String (str ''2024-03-05T10:30:00.000Z''), charts = Array []\<rparr>]
   \<and> ok \<lparr>status = 200, statusText = [], json = Inr nullRowPayload\<rparr>
   \<and> map_option errorName
        (snd (chatHistoryEffect (refPlatform\<lparr>fetch := respond 200 (Inr nullRowPayload)\<rparr>)
                (idleDashboard\<lparr>currentPage := str ''text''\<rparr>)))
       = Some TypeError
   \<and> chatHistoryLoaded
        (fst (chatHistoryEffect (refPlatform\<lparr>fetch := respond 200 (Inr nullRowPayload)\<rparr>)
                (idleDashboard\<lparr>currentPage := str ''text''\<rparr>)))
       = False"
  by (simp add: ok_def idleDashboard_def graphHistoryEffect_def graphHistory_chain_def
        graphHistoryCallback_def graphRow_def chatHistoryEffect_def fetchChatHistory_def
        fetchChatHistory_try_def chatHistoryLoadedCallback_def chatRow_def respond_def
        historyPayload_def nullRowPayload_def readProp_def js_or_def gt0_def str_eq_iff)

section \<open>Tick labels\<close>

lemma floor_rat_divide_numeral: "\<lfloor>numeral a / numeral b :: rat\<rfloor> = numeral a div numeral b"
  using floor_divide_of_int_eq [of "numeral a" "numeral b", where ?'a = rat] by simp

lemma floor_rat_minus_divide_numeral:
  "\<lfloor>- (numeral a / numeral b) :: rat\<rfloor> = - numeral a div numeral b"
  using floor_divide_of_int_eq [of "- numeral a" "numeral b", where ?'a = rat] by simp

lemmas evaluate_numbers =
  floor_rat_divide_numeral floor_rat_minus_divide_numeral digitsOf.simps Let_def
  refToFixed_def refToLocaleString_def dropTrailingZeros_def

lemma toFixed_3_2: "refToFixed (Num (3 / 2)) 1 = str ''1.5''"
  by (simp add: evaluate_numbers str_def)

lemma toFixed_minus_5_2: "refToFixed (Num (- (5 / 2))) 1 = str ''-2.5''"
  by (simp add: evaluate_numbers str_def)

lemma toFixed_minus_5: "refToFixed (Num (- 5)) 1 = str ''-5.0''"
  by (simp add: evaluate_numbers str_def)

lemma toLocaleString_minus_5000: "refToLocaleString (Num (- 5000)) = str ''-5,000''"
  by (simp add: evaluate_numbers str_def)

lemma toLocaleString_1999_2: "refToLocaleString (Num (1999 / 2)) = str ''999.5''"
  by (simp add: evaluate_numbers str_def)

lemma ticks_evaluated:
  "tickFormatter refPlatform (Number (Num 1500000)) = String (str ''1.5M'')"
  "tickFormatter refPlatform (Number (Num (- 2500))) = String (str ''-2.5K'')"
  "tickFormatter refPlatform (Number (Num (1999 / 2))) = String (str ''999.5'')"
  "tickFormatter refPlatform (Number (Num (- 5000))) = String (str ''-5.0K'')"
  by (simp_all add: tickFormatter_def refPlatform_def toFixed_3_2 toFixed_minus_5_2 toFixed_minus_5 toLocaleString_1999_2 del: One_nat_def)
     (simp_all add: str_def)

lemma locale_evaluated: "toLocaleString refPlatform (Num (- 5000)) = str ''-5,000''"
  by (simp add: refPlatform_def toLocaleString_minus_5000)

text \<open>
  Claim C8, as amended. The tick formatter of the generated charts maps every number
  \<open>v\<close> of magnitude at least 1,000,000 to \<open>(v/1000000).toFixed(1)\<close> followed by \<open>M\<close>,
  every \<open>v\<close> of magnitude at least 1,000 and below 1,000,000 to \<open>(v/1000).toFixed(1)\<close>
  followed by \<open>K\<close>, and every other number but \<open>NaN\<close> to \<open>v.toLocaleString()\<close>; \<open>NaN\<close>
  is returned as it is. The thresholds are on the magnitude, so a negative value is
  abbreviated too.
\<close>

theorem tick_labels:
  "tickFormatter P (Number NaN) = Number NaN
   \<and> (1000000 \<le> \<bar>q\<bar> \<longrightarrow>
        tickFormatter P (Number (Num q))
          = String (toFixed P (numDivide P (Num q) (Num 1000000)) 1 @ str ''M''))
   \<and> (1000 \<le> \<bar>q\<bar> \<and> \<bar>q\<bar> < 1000000 \<longrightarrow>
        tickFormatter P (Number (Num q))
          = String (toFixed P (numDivide P (Num q) (Num 1000)) 1 @ str ''K''))
   \<and> (\<bar>q\<bar> < 1000 \<longrightarrow>
        tickFormatter P (Number (Num q)) = String (toLocaleString P (Num q)))"
  by (simp add: tickFormatter_def Let_def)

theorem tick_labels_witness:
  "1000000 \<le> \<bar>1500000 :: rat\<bar>
   \<and> tickFormatter refPlatform (Number (Num 1500000)) = String (str ''1.5M'')
   \<and> 1000 \<le> \<bar>- 2500 :: rat\<bar> \<and> \<bar>- 2500 :: rat\<bar> < 1000000
   \<and> tickFormatter refPlatform (Number (Num (- 2500))) = String (str ''-2.5K'')
   \<and> \<bar>1999 / 2 :: rat\<bar> < 1000
   \<and> tickFormatter refPlatform (Number (Num (1999 / 2))) = String (str ''999.5'')"
  using tick_labels [of refPlatform 1500000] tick_labels [of refPlatform "- 2500"]
    tick_labels [of refPlatform "1999 / 2"]
  by (simp add: ticks_evaluated)

theorem tick_labels_counterexample:
  "\<not> (1000 \<le> (- 5000 :: rat))
   \<and> tickFormatter refPlatform (Number (Num (- 5000))) = String (str ''-5.0K'')
   \<and> toLocaleString refPlatform (Num (- 5000)) = str ''-5,000''
   \<and> String (str ''-5.0K'') \<noteq> String (str ''-5,000'')"
  by (simp add: ticks_evaluated locale_evaluated str_eq_iff)

section \<open>Grouping by date\<close>

lemma lastLabel_snoc:
  "lastLabel (ls @ [l]) = (if l \<noteq> [] then Some l else lastLabel ls)"
  by (simp add: lastLabel_def)

lemma dateLabels_snoc:
  "dateLabels P today (pre @ [m]) = dateLabels P today pre @ [formatDate P today (timestamp m)]"
  by (simp add: dateLabels_def)

lemma groupAt_first:
  "groupAt P today (pre @ m # ms) (length pre) =
     (if formatDate P today (timestamp m) \<noteq> []
         \<and> lastLabel (dateLabels P today pre) \<noteq> Some (formatDate P today (timestamp m))
      then [Divider (formatDate P today (timestamp m)) (str ''divider-'' @ digitsOf (length pre))]
      else [])
     @ [MessageItem m (str ''msg-'' @ digitsOf (length pre))]"
proof -
  have "dateLabels P today (pre @ m # ms)
      = dateLabels P today pre @ formatDate P today (timestamp m) # dateLabels P today ms"
    by (simp add: dateLabels_def)
  moreover have "length (dateLabels P today pre) = length pre"
    by (simp add: dateLabels_def)
  ultimately show ?thesis
    by (simp add: groupAt_def dividerBefore_def nth_append)
qed

lemma groupLoop_from:
  "groupLoop P today msgs (length pre) (lastLabel (dateLabels P today pre)) groups
     = groups @ concat (map (groupAt P today (pre @ msgs))
                          [length pre ..< length pre + length msgs])"
proof (induction msgs arbitrary: pre groups)
  case Nil
  then show ?case by simp
next
  case (Cons m ms)
  let ?l = "formatDate P today (timestamp m)"
  let ?last = "lastLabel (dateLabels P today pre)"
  have next_last: "lastLabel (dateLabels P today (pre @ [m])) = (if ?l \<noteq> [] then Some ?l else ?last)"
    by (simp add: dateLabels_snoc lastLabel_snoc)
  have range: "[length pre ..< length pre + length (m # ms)]
      = length pre # [length (pre @ [m]) ..< length (pre @ [m]) + length ms]"
    by (subst upt_rec) simp
  have IH: "groupLoop P today ms (length pre + 1) (lastLabel (dateLabels P today (pre @ [m]))) gs
      = gs @ concat (map (groupAt P today (pre @ m # ms))
                       [length (pre @ [m]) ..< length (pre @ [m]) + length ms])" for gs
    using Cons.IH [of "pre @ [m]" gs] by simp
  show ?case
  proof (cases "?l \<noteq> [] \<and> Some ?l \<noteq> ?last")
    case True
    then have "lastLabel (dateLabels P today (pre @ [m])) = Some ?l"
      by (simp add: next_last)
    with True IH show ?thesis
      unfolding range by (auto simp add: groupAt_first Let_def)
  next
    case False
    then have "lastLabel (dateLabels P today (pre @ [m])) = ?last"
      by (auto simp add: next_last)
    with False IH show ?thesis
      unfolding range by (auto simp add: groupAt_first Let_def)
  qed
qed

lemma groups_by_index:
  "chatGroupedMessages P today msgs = concat (map (groupAt P today msgs) [0..<length msgs])"
  using groupLoop_from [of P today msgs "[]" "[]"]
  by (simp add: chatGroupedMessages_def dateLabels_def lastLabel_def)

lemma messagesOf_append: "messagesOf (gs @ hs) = messagesOf gs @ messagesOf hs"
  by (induction gs rule: messagesOf.induct) simp_all

lemma messagesOf_groupAt: "messagesOf (groupAt P today msgs i) = [msgs ! i]"
  by (simp add: groupAt_def)

lemma messagesOf_concat:
  "messagesOf (concat (map (groupAt P today msgs) is)) = map (\<lambda>i. msgs ! i) is"
  by (induction "is") (simp_all add: messagesOf_append messagesOf_groupAt)

lemma messages_kept: "messagesOf (chatGroupedMessages P today msgs) = msgs"
  by (simp add: groups_by_index messagesOf_concat map_nth)

lemma lastLabel_all_dated:
  assumes "\<forall>l\<in>set ls. l \<noteq> []" and "i < length ls"
  shows "lastLabel (take i ls) = (if i = 0 then None else Some (ls ! (i - 1)))"
proof (cases "i = 0")
  case True
  then show ?thesis by (simp add: lastLabel_def)
next
  case False
  have "\<forall>l\<in>set (take i ls). l \<noteq> []"
    using assms(1) by (auto dest: in_set_takeD)
  then have "filter (\<lambda>l. l \<noteq> []) (take i ls) = take i ls"
    by simp
  moreover have "take i ls \<noteq> []"
    using False assms(2) by auto
  moreover have "last (take i ls) = ls ! (i - 1)"
  proof -
    have "take i ls \<noteq> []"
      using False assms(2) by auto
    then have "last (take i ls) = take i ls ! (length (take i ls) - 1)"
      by (rule last_conv_nth)
    also have "\<dots> = take i ls ! (i - 1)"
      using assms(2) by (simp add: min_def)
    also have "\<dots> = ls ! (i - 1)"
      using False by simp
    finally show ?thesis .
  qed
  ultimately show ?thesis
    using False by (simp add: lastLabel_def)
qed

lemma dividerBefore_all_dated:
  assumes "\<forall>l\<in>set ls. l \<noteq> []" and "i < length ls"
  shows "dividerBefore ls i \<longleftrightarrow> i = 0 \<or> ls ! i \<noteq> ls ! (i - 1)"
  using assms by (auto simp add: dividerBefore_def lastLabel_all_dated)

lemma labels_evaluated:
  "formatDate refPlatform secondOfNovember (timestamp marchQuestion) = str ''5 Mar 2024''"
  "formatDate refPlatform secondOfNovember (timestamp undatedAnswer) = []"
  "formatDate refPlatform secondOfNovember (timestamp marchFollowUp) = str ''5 Mar 2024''"
  "formatDate refPlatform secondOfNovember (timestamp novemberQuestion) = str ''Today''"
  by code_simp+

lemma groups_evaluated:
  "chatGroupedMessages refPlatform secondOfNovember
     [marchQuestion, undatedAnswer, marchFollowUp]
   = [Divider (str ''5 Mar 2024'') (str ''divider-0''),
      MessageItem marchQuestion (str ''msg-0''),
      MessageItem undatedAnswer (str ''msg-1''),
      MessageItem marchFollowUp (str ''msg-2'')]"
  by (simp add: chatGroupedMessages_def labels_evaluated Let_def digitsOf.simps str_eq_iff
        str_Nil_iff)
     (simp add: str_def)

lemma dated_groups_evaluated:
  "chatGroupedMessages refPlatform secondOfNovember
     [marchQuestion, marchFollowUp, novemberQuestion]
   = [Divider (str ''5 Mar 2024'') (str ''divider-0''),
      MessageItem marchQuestion (str ''msg-0''),
      MessageItem marchFollowUp (str ''msg-1''),
      Divider (str ''Today'') (str ''divider-2''),
      MessageItem novemberQuestion (str ''msg-2'')]"
  by (simp add: chatGroupedMessages_def labels_evaluated Let_def digitsOf.simps str_eq_iff
        str_Nil_iff)
     (simp add: str_def)

text \<open>
  Claim C9, as amended. For every sequence of messages of the analysis thread, the
  grouping holds, for each message in order, a divider followed by the message when
  the message has a date label and that label differs from the label of the closest
  earlier message that has one (or there is none), and the message alone otherwise; a
  message without a timestamp gets no divider and is passed over in the comparison.
  The grouping contains every message exactly once, in the original order. When every
  message has a date label, a divider stands before a message exactly when it is the
  first or its label differs from the label of the message before it. The label is
  \<open>Today\<close> for a timestamp of today's date and the day, month and year otherwise.
\<close>

theorem groups_by_date:
  "chatGroupedMessages P today msgs = concat (map (groupAt P today msgs) [0..<length msgs])
   \<and> messagesOf (chatGroupedMessages P today msgs) = msgs
   \<and> ((\<forall>l\<in>set (dateLabels P today msgs). l \<noteq> []) \<longrightarrow>
        (\<forall>i<length msgs.
           dividerBefore (dateLabels P today msgs) i
             \<longleftrightarrow> i = 0 \<or> dateLabels P today msgs ! i \<noteq> dateLabels P today msgs ! (i - 1)))"
proof (intro conjI impI allI)
  show "chatGroupedMessages P today msgs = concat (map (groupAt P today msgs) [0..<length msgs])"
    by (rule groups_by_index)
  show "messagesOf (chatGroupedMessages P today msgs) = msgs"
    by (rule messages_kept)
  fix i
  assume "\<forall>l\<in>set (dateLabels P today msgs). l \<noteq> []" and "i < length msgs"
  then show "dividerBefore (dateLabels P today msgs) i
      \<longleftrightarrow> i = 0 \<or> dateLabels P today msgs ! i \<noteq> dateLabels P today msgs ! (i - 1)"
    by (intro dividerBefore_all_dated) (simp_all add: dateLabels_def)
qed

theorem groups_by_date_witness:
  "list_all (\<lambda>l. l \<noteq> [])
     (dateLabels refPlatform secondOfNovember [marchQuestion, marchFollowUp, novemberQuestion])
   \<and> dateLabels refPlatform secondOfNovember [marchQuestion, marchFollowUp, novemberQuestion]
       = [str ''5 Mar 2024'', str ''5 Mar 2024'', str ''Today'']
   \<and> concat (map (groupAt refPlatform secondOfNovember
                     [marchQuestion, marchFollowUp, novemberQuestion])
               [0..<length [marchQuestion, marchFollowUp, novemberQuestion]])
       = [Divider (str ''5 Mar 2024'') (str ''divider-0''),
          MessageItem marchQuestion (str ''msg-0''),
          MessageItem marchFollowUp (str ''msg-1''),
          Divider (str ''Today'') (str ''divider-2''),
          MessageItem novemberQuestion (str ''msg-2'')]
   \<and> messagesOf (chatGroupedMessages refPlatform secondOfNovember
         [marchQuestion, marchFollowUp, novemberQuestion])
       = [marchQuestion, marchFollowUp, novemberQuestion]"
proof -
  note grouped = groups_by_date [of refPlatform secondOfNovember
      "[marchQuestion, marchFollowUp, novemberQuestion]"]
  have labels: "dateLabels refPlatform secondOfNovember
      [marchQuestion, marchFollowUp, novemberQuestion]
      = [str ''5 Mar 2024'', str ''5 Mar 2024'', str ''Today'']"
    by (simp add: dateLabels_def labels_evaluated)
  have dated: "list_all (\<lambda>l. l \<noteq> [])
      (dateLabels refPlatform secondOfNovember [marchQuestion, marchFollowUp, novemberQuestion])"
    unfolding labels by (simp add: str_Nil_iff)
  have "concat (map (groupAt refPlatform secondOfNovember
                     [marchQuestion, marchFollowUp, novemberQuestion])
               [0..<length [marchQuestion, marchFollowUp, novemberQuestion]])
      = chatGroupedMessages refPlatform secondOfNovember
          [marchQuestion, marchFollowUp, novemberQuestion]"
    by (rule grouped [THEN conjunct1, symmetric])
  then have groups: "concat (map (groupAt refPlatform secondOfNovember
                     [marchQuestion, marchFollowUp, novemberQuestion])
               [0..<length [marchQuestion, marchFollowUp, novemberQuestion]])
       = [Divider (str ''5 Mar 2024'') (str ''divider-0''),
          MessageItem marchQuestion (str ''msg-0''),
          MessageItem marchFollowUp (str ''msg-1''),
          Divider (str ''Today'') (str ''divider-2''),
          MessageItem novemberQuestion (str ''msg-2'')]"
    by (simp only: dated_groups_evaluated)
  have kept: "messagesOf (chatGroupedMessages refPlatform secondOfNovember
         [marchQuestion, marchFollowUp, novemberQuestion])
       = [marchQuestion, marchFollowUp, novemberQuestion]"
    by (rule grouped [THEN conjunct2, THEN conjunct1])
  from dated labels groups kept show ?thesis
    by (intro conjI)
qed

theorem groups_by_date_counterexample:
  "formatDate refPlatform secondOfNovember (timestamp undatedAnswer)
     \<noteq> formatDate refPlatform secondOfNovember (timestamp marchQuestion)
   \<and> formatDate refPlatform secondOfNovember (timestamp marchFollowUp)
     \<noteq> formatDate refPlatform secondOfNovember (timestamp undatedAnswer)
   \<and> chatGroupedMessages refPlatform secondOfNovember
        [marchQuestion, undatedAnswer, marchFollowUp]
      = [Divider (str ''5 Mar 2024'') (str ''divider-0''),
         MessageItem marchQuestion (str ''msg-0''),
         MessageItem undatedAnswer (str ''msg-1''),
         MessageItem marchFollowUp (str ''msg-2'')]"
  by (simp add: labels_evaluated groups_evaluated str_Nil_iff Nil_str_iff str_eq_iff)

end
